theory Spec2Isabelle
  imports Main "HOL-Library.Word"
begin

unbundle bit_operations_syntax

section \<open>Data model of the NT introspection layer (os\_nt.cpp)\<close>

type_synonym u8 = "8 word"
type_synonym u16 = "16 word"
type_synonym u32 = "32 word"
type_synonym u64 = "64 word"

text \<open>\<^verbatim>\<open>proc_t\<close>, \<^verbatim>\<open>span_t\<close> and \<^verbatim>\<open>mod_t\<close> of types.hpp, as os\_nt.cpp uses them:
  \<^verbatim>\<open>proc_t{eproc, dtb}\<close> read back as \<^verbatim>\<open>proc.id\<close>, \<^verbatim>\<open>span_t{addr, size}\<close>, and a module
  handle that is the address of its loader entry.\<close>

record proc_t =
  proc_id :: u64
  proc_dtb :: u64

record span_t =
  span_addr :: u64
  span_size :: u64

type_synonym mod_t = u64

datatype walk_e = WALK_STOP | WALK_NEXT

datatype msr_e = MSR_LSTAR | MSR_GS_BASE | MSR_KERNEL_GS_BASE

text \<open>The diagnostics of the \<^verbatim>\<open>LOG\<close> and \<^verbatim>\<open>FAIL\<close> call sites of os\_nt.cpp, one constructor
  per format string, carrying the arguments the message prints.\<close>

datatype diag =
    Info_kernel u64 u64
  | Unable_to_find_kernel
  | Unable_to_read_kernel_module
  | Unable_to_load_symbols
  | Unable_to_read_symbol_offset string string
  | Unable_to_read_member_offset string string string
  | PDB_mismatch u64 u64
  | Unable_to_read_DirectoryTableBase_from u64
  | Unable_to_read_CurrentThread
  | Unable_to_read_KTHREAD_Process
  | Unable_to_read_DirectoryTableBase
  | Unable_to_read_UNICODE_STRING
  | Corrupted_UNICODE_STRING
  | Unable_to_read_UNICODE_STRING_buffer
  | Unable_to_read_Peb
  | Unable_to_read_Ldr

text \<open>The symbol store as it answers after an image has been ingested
  (\<^verbatim>\<open>core.sym.symbol\<close>, \<^verbatim>\<open>core.sym.struc_offset\<close>).\<close>

record symstore =
  symbol :: "string \<Rightarrow> string \<Rightarrow> u64 option"
  struc_offset :: "string \<Rightarrow> string \<Rightarrow> string \<Rightarrow> u64 option"

text \<open>The collaborators that os\_nt.cpp reaches and that are not part of it, taken as
  parameters: the register file, guest memory as the bytes mapped under each address-space
  selection, symbol ingestion, the image-size probe \<^verbatim>\<open>pe::read_image_size\<close> and the
  decoder \<^verbatim>\<open>utf8::convert\<close>. A \<^verbatim>\<open>std::string\<close> is its sequence of bytes.\<close>

record core =
  regs_read :: "msr_e \<Rightarrow> u64 option"
  mem :: "proc_t option \<Rightarrow> u64 \<Rightarrow> u8 option"
  sym_insert :: "string \<Rightarrow> span_t \<Rightarrow> u8 list \<Rightarrow> symstore option"
  read_image_size :: "u8 list \<Rightarrow> u64 option"
  utf8_convert :: "u8 list \<Rightarrow> u8 list option"

text \<open>What changes while the layer runs: the address-space selection held by the backend,
  the guest-memory reads issued so far (address and length, oldest first) and the
  diagnostics logged so far.\<close>

record st =
  cur :: "proc_t option"
  reads :: "(u64 \<times> nat) list"
  logs :: "diag list"

definition LOG :: "diag \<Rightarrow> st \<Rightarrow> st" where
  "LOG d s = s\<lparr>logs := logs s @ [d]\<rparr>"

text \<open>Modelled from the spec: \<^verbatim>\<open>core.read(dest, guest_address, length)\<close> (core.hpp is not
  under src/) either fills the whole destination or fails. Here it succeeds exactly when
  every byte of the range is mapped under the current selection; addresses wrap at 64 bits.\<close>

primrec read_bytes :: "(u64 \<Rightarrow> u8 option) \<Rightarrow> u64 \<Rightarrow> nat \<Rightarrow> u8 list option" where
  "read_bytes m a 0 = Some []"
| "read_bytes m a (Suc n) =
     (case m a of
        None \<Rightarrow> None
      | Some b \<Rightarrow> (case read_bytes m (a + 1) n of None \<Rightarrow> None | Some bs \<Rightarrow> Some (b # bs)))"

definition read :: "core \<Rightarrow> st \<Rightarrow> u64 \<Rightarrow> nat \<Rightarrow> u8 list option \<times> st" where
  "read c s a n = (read_bytes (mem c (cur s)) a n, s\<lparr>reads := reads s @ [(a, n)]\<rparr>)"

text \<open>Modelled from the spec: the little-endian field readers \<^verbatim>\<open>read_le16\<close>, \<^verbatim>\<open>read_le32\<close>
  and \<^verbatim>\<open>read_le64\<close> (not under src/): byte 0 is the least significant.\<close>

primrec le_nat :: "u8 list \<Rightarrow> nat" where
  "le_nat [] = 0"
| "le_nat (b # bs) = unat b + 256 * le_nat bs"

definition read_le16 :: "u8 list \<Rightarrow> u16" where
  "read_le16 bs = of_nat (le_nat (take 2 bs))"

definition read_le32 :: "u8 list \<Rightarrow> u32" where
  "read_le32 bs = of_nat (le_nat (take 4 bs))"

definition read_le64 :: "u8 list \<Rightarrow> u64" where
  "read_le64 bs = of_nat (le_nat (take 8 bs))"

text \<open>Modelled from the spec: \<^verbatim>\<open>core::read_ptr\<close> (core\_helpers.hpp is not under src/) reads
  one pointer-width value, eight bytes, little-endian, and is absent when the read fails.\<close>

definition read_ptr :: "core \<Rightarrow> st \<Rightarrow> u64 \<Rightarrow> u64 option \<times> st" where
  "read_ptr c s a = (case read c s a 8 of (r, s') \<Rightarrow> (map_option read_le64 r, s'))"

text \<open>Modelled from the spec: \<^verbatim>\<open>PAGE_SIZE\<close> and \<^verbatim>\<open>utils::align<PAGE_SIZE>\<close> (utils.hpp is not
  under src/): a page is 4096 bytes and aligning rounds an address down to its page.\<close>

definition PAGE_SIZE :: nat where
  "PAGE_SIZE = 4096"

definition align :: "u64 \<Rightarrow> u64" where
  "align x = x AND NOT 0xFFF"

section \<open>Kernel-image locator\<close>

text \<open>The \<^verbatim>\<open>for\<close> loop of \<^verbatim>\<open>find_kernel\<close>, from its condition on. It has no bound of its own:
  it ends on a failed read, on a header, or when \<^verbatim>\<open>ptr < lstar\<close> stops holding.\<close>

partial_function (option) find_kernel_loop ::
  "core \<Rightarrow> u64 \<Rightarrow> u64 \<Rightarrow> st \<Rightarrow> (span_t option \<times> st) option" where
  "find_kernel_loop c lstar ptr s =
     (if ptr < lstar then
        (case read c s ptr PAGE_SIZE of
           (None, s1) \<Rightarrow> Some (None, s1)
         | (Some buf, s1) \<Rightarrow>
             (case read_image_size c buf of
                None \<Rightarrow> find_kernel_loop c lstar (ptr - of_nat PAGE_SIZE) s1
              | Some sz \<Rightarrow> Some (Some \<lparr>span_addr = ptr, span_size = sz\<rparr>, s1)))
      else Some (None, s))"

definition find_kernel :: "core \<Rightarrow> u64 \<Rightarrow> st \<Rightarrow> (span_t option \<times> st) option" where
  "find_kernel c lstar s = find_kernel_loop c lstar (align lstar) s"

section \<open>Offset catalogs\<close>

text \<open>The unscoped enumerations \<^verbatim>\<open>member_offset_e\<close> and \<^verbatim>\<open>symbol_offset_e\<close>: each
  enumerator is the array index it stands for.\<close>

definition EPROCESS_ActiveProcessLinks :: nat where
  "EPROCESS_ActiveProcessLinks = 0"

definition EPROCESS_ImageFileName :: nat where
  "EPROCESS_ImageFileName = 1"

definition EPROCESS_Pcb :: nat where
  "EPROCESS_Pcb = 2"

definition EPROCESS_Peb :: nat where
  "EPROCESS_Peb = 3"

definition EPROCESS_SeAuditProcessCreationInfo :: nat where
  "EPROCESS_SeAuditProcessCreationInfo = 4"

definition EPROCESS_VadRoot :: nat where
  "EPROCESS_VadRoot = 5"

definition KPCR_Prcb :: nat where
  "KPCR_Prcb = 6"

definition KPRCB_CurrentThread :: nat where
  "KPRCB_CurrentThread = 7"

definition KPROCESS_DirectoryTableBase :: nat where
  "KPROCESS_DirectoryTableBase = 8"

definition KTHREAD_Process :: nat where
  "KTHREAD_Process = 9"

definition LDR_DATA_TABLE_ENTRY_DllBase :: nat where
  "LDR_DATA_TABLE_ENTRY_DllBase = 10"

definition LDR_DATA_TABLE_ENTRY_FullDllName :: nat where
  "LDR_DATA_TABLE_ENTRY_FullDllName = 11"

definition LDR_DATA_TABLE_ENTRY_InLoadOrderLinks :: nat where
  "LDR_DATA_TABLE_ENTRY_InLoadOrderLinks = 12"

definition LDR_DATA_TABLE_ENTRY_SizeOfImage :: nat where
  "LDR_DATA_TABLE_ENTRY_SizeOfImage = 13"

definition OBJECT_NAME_INFORMATION_Name :: nat where
  "OBJECT_NAME_INFORMATION_Name = 14"

definition PEB_Ldr :: nat where
  "PEB_Ldr = 15"

definition PEB_LDR_DATA_InLoadOrderModuleList :: nat where
  "PEB_LDR_DATA_InLoadOrderModuleList = 16"

definition PEB_ProcessParameters :: nat where
  "PEB_ProcessParameters = 17"

definition RTL_USER_PROCESS_PARAMETERS_ImagePathName :: nat where
  "RTL_USER_PROCESS_PARAMETERS_ImagePathName = 18"

definition SE_AUDIT_PROCESS_CREATION_INFO_ImageFileName :: nat where
  "SE_AUDIT_PROCESS_CREATION_INFO_ImageFileName = 19"

definition MEMBER_OFFSET_COUNT :: nat where
  "MEMBER_OFFSET_COUNT = 20"

definition KiSystemCall64 :: nat where
  "KiSystemCall64 = 0"

definition PsActiveProcessHead :: nat where
  "PsActiveProcessHead = 1"

definition PsInitialSystemProcess :: nat where
  "PsInitialSystemProcess = 2"

definition SYMBOL_OFFSET_COUNT :: nat where
  "SYMBOL_OFFSET_COUNT = 3"

record MemberOffset =
  mo_e_id :: nat
  mo_module :: string
  mo_struc :: string
  mo_member :: string

definition g_member_offsets :: "MemberOffset list" where
  "g_member_offsets =
    [\<lparr>mo_e_id = EPROCESS_ActiveProcessLinks, mo_module = ''nt'', mo_struc = ''_EPROCESS'', mo_member = ''ActiveProcessLinks''\<rparr>,
     \<lparr>mo_e_id = EPROCESS_ImageFileName, mo_module = ''nt'', mo_struc = ''_EPROCESS'', mo_member = ''ImageFileName''\<rparr>,
     \<lparr>mo_e_id = EPROCESS_Pcb, mo_module = ''nt'', mo_struc = ''_EPROCESS'', mo_member = ''Pcb''\<rparr>,
     \<lparr>mo_e_id = EPROCESS_Peb, mo_module = ''nt'', mo_struc = ''_EPROCESS'', mo_member = ''Peb''\<rparr>,
     \<lparr>mo_e_id = EPROCESS_SeAuditProcessCreationInfo, mo_module = ''nt'', mo_struc = ''_EPROCESS'', mo_member = ''SeAuditProcessCreationInfo''\<rparr>,
     \<lparr>mo_e_id = EPROCESS_VadRoot, mo_module = ''nt'', mo_struc = ''_EPROCESS'', mo_member = ''VadRoot''\<rparr>,
     \<lparr>mo_e_id = KPCR_Prcb, mo_module = ''nt'', mo_struc = ''_KPCR'', mo_member = ''Prcb''\<rparr>,
     \<lparr>mo_e_id = KPRCB_CurrentThread, mo_module = ''nt'', mo_struc = ''_KPRCB'', mo_member = ''CurrentThread''\<rparr>,
     \<lparr>mo_e_id = KPROCESS_DirectoryTableBase, mo_module = ''nt'', mo_struc = ''_KPROCESS'', mo_member = ''DirectoryTableBase''\<rparr>,
     \<lparr>mo_e_id = KTHREAD_Process, mo_module = ''nt'', mo_struc = ''_KTHREAD'', mo_member = ''Process''\<rparr>,
     \<lparr>mo_e_id = LDR_DATA_TABLE_ENTRY_DllBase, mo_module = ''nt'', mo_struc = ''_LDR_DATA_TABLE_ENTRY'', mo_member = ''DllBase''\<rparr>,
     \<lparr>mo_e_id = LDR_DATA_TABLE_ENTRY_FullDllName, mo_module = ''nt'', mo_struc = ''_LDR_DATA_TABLE_ENTRY'', mo_member = ''FullDllName''\<rparr>,
     \<lparr>mo_e_id = LDR_DATA_TABLE_ENTRY_InLoadOrderLinks, mo_module = ''nt'', mo_struc = ''_LDR_DATA_TABLE_ENTRY'', mo_member = ''InLoadOrderLinks''\<rparr>,
     \<lparr>mo_e_id = LDR_DATA_TABLE_ENTRY_SizeOfImage, mo_module = ''nt'', mo_struc = ''_LDR_DATA_TABLE_ENTRY'', mo_member = ''SizeOfImage''\<rparr>,
     \<lparr>mo_e_id = OBJECT_NAME_INFORMATION_Name, mo_module = ''nt'', mo_struc = ''_OBJECT_NAME_INFORMATION'', mo_member = ''Name''\<rparr>,
     \<lparr>mo_e_id = PEB_Ldr, mo_module = ''nt'', mo_struc = ''_PEB'', mo_member = ''Ldr''\<rparr>,
     \<lparr>mo_e_id = PEB_LDR_DATA_InLoadOrderModuleList, mo_module = ''nt'', mo_struc = ''_PEB_LDR_DATA'', mo_member = ''InLoadOrderModuleList''\<rparr>,
     \<lparr>mo_e_id = PEB_ProcessParameters, mo_module = ''nt'', mo_struc = ''_PEB'', mo_member = ''ProcessParameters''\<rparr>,
     \<lparr>mo_e_id = RTL_USER_PROCESS_PARAMETERS_ImagePathName, mo_module = ''nt'', mo_struc = ''_RTL_USER_PROCESS_PARAMETERS'', mo_member = ''ImagePathName''\<rparr>,
     \<lparr>mo_e_id = SE_AUDIT_PROCESS_CREATION_INFO_ImageFileName, mo_module = ''nt'', mo_struc = ''_SE_AUDIT_PROCESS_CREATION_INFO'', mo_member = ''ImageFileName''\<rparr>]"

record SymbolOffset =
  so_e_id :: nat
  so_module :: string
  so_name :: string

definition g_symbol_offsets :: "SymbolOffset list" where
  "g_symbol_offsets =
    [\<lparr>so_e_id = KiSystemCall64, so_module = ''nt'', so_name = ''KiSystemCall64''\<rparr>,
     \<lparr>so_e_id = PsActiveProcessHead, so_module = ''nt'', so_name = ''PsActiveProcessHead''\<rparr>,
     \<lparr>so_e_id = PsInitialSystemProcess, so_module = ''nt'', so_name = ''PsInitialSystemProcess''\<rparr>]"

text \<open>The members \<^verbatim>\<open>members_\<close> and \<^verbatim>\<open>symbols_\<close> of \<^verbatim>\<open>OsNt\<close>, which \<^verbatim>\<open>setup\<close> fills: \<^verbatim>\<open>std::array\<close>s of 64-bit values
  indexed by the enumerators. The constructor initialises neither, so a fresh object holds
  arbitrary values.\<close>

record OsNt =
  members :: "nat \<Rightarrow> u64"
  symbols :: "nat \<Rightarrow> u64"

section \<open>Bootstrap\<close>

text \<open>Shorthand for what the store answers for catalog entry \<open>i\<close> and for the
  diagnostic logged when it has no answer.\<close>

abbreviation symbol_at :: "symstore \<Rightarrow> nat \<Rightarrow> u64 option" where
  "symbol_at sy i \<equiv> symbol sy (so_module (g_symbol_offsets ! i)) (so_name (g_symbol_offsets ! i))"

abbreviation member_at :: "symstore \<Rightarrow> nat \<Rightarrow> u64 option" where
  "member_at sy i \<equiv> struc_offset sy (mo_module (g_member_offsets ! i))
     (mo_struc (g_member_offsets ! i)) (mo_member (g_member_offsets ! i))"

abbreviation symbol_missing :: "nat \<Rightarrow> diag" where
  "symbol_missing i \<equiv> Unable_to_read_symbol_offset
     (so_module (g_symbol_offsets ! i)) (so_name (g_symbol_offsets ! i))"

abbreviation member_missing :: "nat \<Rightarrow> diag" where
  "member_missing i \<equiv> Unable_to_read_member_offset (mo_module (g_member_offsets ! i))
     (mo_struc (g_member_offsets ! i)) (mo_member (g_member_offsets ! i))"

text \<open>The bodies of the two resolution loops of \<^verbatim>\<open>OsNt::setup\<close> at index \<open>i\<close>; the triple
  is the \<^verbatim>\<open>fail\<close> flag, the object and the running state.\<close>

definition symbols_step :: "symstore \<Rightarrow> nat \<Rightarrow> bool \<times> OsNt \<times> st \<Rightarrow> bool \<times> OsNt \<times> st" where
  "symbols_step sy i = (\<lambda>(fail, nt, s).
     (case symbol sy (so_module (g_symbol_offsets ! i)) (so_name (g_symbol_offsets ! i)) of
        None \<Rightarrow>
          (True, nt,
           LOG (Unable_to_read_symbol_offset
                  (so_module (g_symbol_offsets ! i)) (so_name (g_symbol_offsets ! i))) s)
      | Some addr \<Rightarrow> (fail, nt\<lparr>symbols := (symbols nt)(i := addr)\<rparr>, s)))"

definition members_step :: "symstore \<Rightarrow> nat \<Rightarrow> bool \<times> OsNt \<times> st \<Rightarrow> bool \<times> OsNt \<times> st" where
  "members_step sy i = (\<lambda>(fail, nt, s).
     (case struc_offset sy (mo_module (g_member_offsets ! i)) (mo_struc (g_member_offsets ! i))
             (mo_member (g_member_offsets ! i)) of
        None \<Rightarrow>
          (True, nt,
           LOG (Unable_to_read_member_offset (mo_module (g_member_offsets ! i))
                  (mo_struc (g_member_offsets ! i)) (mo_member (g_member_offsets ! i))) s)
      | Some offset \<Rightarrow> (fail, nt\<lparr>members := (members nt)(i := offset)\<rparr>, s)))"

text \<open>Both loops run one after the other, the symbol catalog first, each over all its
  indices, starting with \<^verbatim>\<open>fail = false\<close>.\<close>

definition resolve_offsets :: "symstore \<Rightarrow> OsNt \<Rightarrow> st \<Rightarrow> bool \<times> OsNt \<times> st" where
  "resolve_offsets sy nt s =
     fold (members_step sy) [0..<MEMBER_OFFSET_COUNT]
       (fold (symbols_step sy) [0..<SYMBOL_OFFSET_COUNT] (False, nt, s))"

text \<open>\<^verbatim>\<open>OsNt::setup\<close> (named \<open>OsNt_setup\<close> here). \<^verbatim>\<open>FAIL(value, ...)\<close> logs its message and returns the value. The
  result is \<open>None\<close> only when the scan of \<^verbatim>\<open>find_kernel\<close> does not end.\<close>

definition OsNt_setup :: "core \<Rightarrow> OsNt \<Rightarrow> st \<Rightarrow> (bool \<times> OsNt \<times> st) option" where
  "OsNt_setup c nt s =
     (case regs_read c MSR_LSTAR of
        None \<Rightarrow> Some (False, nt, s)
      | Some lstar \<Rightarrow>
          (case find_kernel c lstar s of
             None \<Rightarrow> None
           | Some (None, s1) \<Rightarrow> Some (False, nt, LOG Unable_to_find_kernel s1)
           | Some (Some kern, s1) \<Rightarrow>
               (case read c (LOG (Info_kernel (span_addr kern) (span_size kern)) s1)
                       (span_addr kern) (unat (span_size kern)) of
                  (None, s2) \<Rightarrow> Some (False, nt, LOG Unable_to_read_kernel_module s2)
                | (Some buffer, s2) \<Rightarrow>
                    (case sym_insert c ''nt'' kern buffer of
                       None \<Rightarrow> Some (False, nt, LOG Unable_to_load_symbols s2)
                     | Some sy \<Rightarrow>
                         (case resolve_offsets sy nt s2 of
                            (fail, nt', s3) \<Rightarrow>
                              if fail then Some (False, nt', s3)
                              else if lstar \<noteq> symbols nt' KiSystemCall64
                              then Some (False, nt',
                                         LOG (PDB_mismatch lstar (symbols nt' KiSystemCall64)) s3)
                              else Some (True, nt', s3))))))"

text \<open>\<^verbatim>\<open>os::make_nt\<close>: the handler is handed out only when \<^verbatim>\<open>setup\<close> returned true. \<open>fresh\<close>
  is the object as \<^verbatim>\<open>std::make_unique<OsNt>(core)\<close> leaves it.\<close>

definition make_nt :: "core \<Rightarrow> OsNt \<Rightarrow> st \<Rightarrow> (OsNt option \<times> st) option" where
  "make_nt c fresh s =
     (case OsNt_setup c fresh s of
        None \<Rightarrow> None
      | Some (ok, nt, s') \<Rightarrow> Some (if ok then Some nt else None, s'))"

section \<open>Process walker\<close>

text \<open>What the C++ leaves undefined: \<^verbatim>\<open>*link\<close> on an \<^verbatim>\<open>opt<uint64_t>\<close> that holds no value.\<close>

datatype fault = Empty_optional_dereferenced

text \<open>The \<^verbatim>\<open>for\<close> loop of \<^verbatim>\<open>OsNt::list_procs\<close> from its condition on. \<^verbatim>\<open>link != head\<close> compares
  an optional with a value and is true for an empty optional, so the body runs and
  dereferences it. \<^verbatim>\<open>continue\<close> goes to the loop's increment. The visitor is a function of
  the handle; the handles it was called with are collected in order.\<close>

partial_function (option) list_procs_loop ::
  "core \<Rightarrow> OsNt \<Rightarrow> (proc_t \<Rightarrow> walk_e) \<Rightarrow> u64 \<Rightarrow> u64 option \<Rightarrow> proc_t list \<Rightarrow> st
     \<Rightarrow> (fault + proc_t list \<times> st) option" where
  "list_procs_loop c nt on_process head link visited s =
     (if link \<noteq> Some head then
        (case link of
           None \<Rightarrow> Some (Inl Empty_optional_dereferenced)
         | Some l \<Rightarrow>
             (case read_ptr c s (l - members nt EPROCESS_ActiveProcessLinks
                                   + members nt EPROCESS_Pcb
                                   + members nt KPROCESS_DirectoryTableBase) of
                (None, s1) \<Rightarrow>
                  (case read_ptr c
                          (LOG (Unable_to_read_DirectoryTableBase_from
                                  (l - members nt EPROCESS_ActiveProcessLinks)) s1) l of
                     (link', s2) \<Rightarrow> list_procs_loop c nt on_process head link' visited s2)
              | (Some dtb, s1) \<Rightarrow>
                  if on_process \<lparr>proc_id = l - members nt EPROCESS_ActiveProcessLinks,
                                 proc_dtb = dtb\<rparr> = WALK_STOP
                  then Some (Inr (visited @ [\<lparr>proc_id = l - members nt EPROCESS_ActiveProcessLinks,
                                               proc_dtb = dtb\<rparr>], s1))
                  else
                    (case read_ptr c s1 l of
                       (link', s2) \<Rightarrow>
                         list_procs_loop c nt on_process head link'
                           (visited @ [\<lparr>proc_id = l - members nt EPROCESS_ActiveProcessLinks,
                                         proc_dtb = dtb\<rparr>]) s2)))
      else Some (Inr (visited, s)))"

text \<open>\<^verbatim>\<open>OsNt::list_procs\<close>: its only \<^verbatim>\<open>return\<close> is \<^verbatim>\<open>return true\<close>.\<close>

definition list_procs ::
  "core \<Rightarrow> OsNt \<Rightarrow> (proc_t \<Rightarrow> walk_e) \<Rightarrow> st \<Rightarrow> (fault + bool \<times> proc_t list \<times> st) option" where
  "list_procs c nt on_process s =
     (case read_ptr c s (symbols nt PsActiveProcessHead) of
        (link, s1) \<Rightarrow>
          (case list_procs_loop c nt on_process (symbols nt PsActiveProcessHead) link [] s1 of
             None \<Rightarrow> None
           | Some (Inl f) \<Rightarrow> Some (Inl f)
           | Some (Inr (visited, s2)) \<Rightarrow> Some (Inr (True, visited, s2))))"

definition read_gs_base :: "core \<Rightarrow> u64 option" where
  "read_gs_base c =
     (case regs_read c MSR_GS_BASE of
        None \<Rightarrow> None
      | Some gs \<Rightarrow>
          if gs AND 0xFFF0000000000000 \<noteq> 0 then Some gs
          else (case regs_read c MSR_KERNEL_GS_BASE of
                  None \<Rightarrow> None
                | Some gs' \<Rightarrow> Some gs'))"

definition get_current_proc :: "core \<Rightarrow> OsNt \<Rightarrow> st \<Rightarrow> proc_t option \<times> st" where
  "get_current_proc c nt s =
     (case read_gs_base c of
        None \<Rightarrow> (None, s)
      | Some gs \<Rightarrow>
          (case read_ptr c s (gs + members nt KPCR_Prcb + members nt KPRCB_CurrentThread) of
             (None, s1) \<Rightarrow> (None, LOG Unable_to_read_CurrentThread s1)
           | (Some current_thread, s1) \<Rightarrow>
               (case read_ptr c s1 (current_thread + members nt KTHREAD_Process) of
                  (None, s2) \<Rightarrow> (None, LOG Unable_to_read_KTHREAD_Process s2)
                | (Some kproc, s2) \<Rightarrow>
                    (case read_ptr c s2 (kproc + members nt KPROCESS_DirectoryTableBase) of
                       (None, s3) \<Rightarrow> (None, LOG Unable_to_read_DirectoryTableBase s3)
                     | (Some dtb, s3) \<Rightarrow>
                         (Some \<lparr>proc_id = kproc - members nt EPROCESS_Pcb, proc_dtb = dtb\<rparr>,
                          s3)))))"

text \<open>The claim's words for what the mask test of \<^verbatim>\<open>read_gs_base\<close> detects, to be compared
  with it: a 64-bit address is canonical when bits 63 to 47 are all equal, and a canonical
  address is a kernel-space one when they are all set.\<close>

definition spec_canonical :: "u64 \<Rightarrow> bool" where
  "spec_canonical a \<longleftrightarrow> drop_bit 47 a = 0 \<or> drop_bit 47 a = 0x1FFFF"

definition spec_kernel_space :: "u64 \<Rightarrow> bool" where
  "spec_kernel_space a \<longleftrightarrow> drop_bit 47 a = 0x1FFFF"

section \<open>Name resolver\<close>

text \<open>\<^verbatim>\<open>read_unicode_string\<close>: the descriptor is 16 bytes, \<^verbatim>\<open>length\<close> at offset 0,
  \<^verbatim>\<open>max_length\<close> at 2, four bytes of padding, \<^verbatim>\<open>buffer\<close> at 8.\<close>

definition read_unicode_string :: "core \<Rightarrow> st \<Rightarrow> u64 \<Rightarrow> u8 list option \<times> st" where
  "read_unicode_string c s unicode_string =
     (case read c s unicode_string 16 of
        (None, s1) \<Rightarrow> (None, LOG Unable_to_read_UNICODE_STRING s1)
      | (Some us, s1) \<Rightarrow>
          if read_le16 us > read_le16 (drop 2 us)
          then (None, LOG Corrupted_UNICODE_STRING s1)
          else
            (case read c s1 (read_le64 (drop 8 us)) (unat (read_le16 us)) of
               (None, s2) \<Rightarrow> (None, LOG Unable_to_read_UNICODE_STRING_buffer s2)
             | (Some buffer, s2) \<Rightarrow> (utf8_convert c buffer, s2)))"







section \<open>Module walker\<close>

text \<open>Modelled from the spec: \<^verbatim>\<open>core.switch_process(proc)\<close> (core.hpp is not under src/)
  selects the process's address space and returns a guard that reverts the selection when
  its scope ends. The guard holds the selection it replaced; \<open>release\<close> is its destructor.\<close>

definition switch_process :: "proc_t \<Rightarrow> st \<Rightarrow> proc_t option \<times> st" where
  "switch_process proc s = (cur s, s\<lparr>cur := Some proc\<rparr>)"

definition release :: "proc_t option \<Rightarrow> st \<Rightarrow> st" where
  "release ctx s = s\<lparr>cur := ctx\<rparr>"

text \<open>The \<^verbatim>\<open>for\<close> loop of \<^verbatim>\<open>OsNt::list_mods\<close> from its condition \<^verbatim>\<open>link && link != head\<close> on.\<close>

partial_function (option) list_mods_loop ::
  "core \<Rightarrow> OsNt \<Rightarrow> (mod_t \<Rightarrow> walk_e) \<Rightarrow> u64 \<Rightarrow> u64 option \<Rightarrow> mod_t list \<Rightarrow> st
     \<Rightarrow> (mod_t list \<times> st) option" where
  "list_mods_loop c nt on_mod head link visited s =
     (case link of
        None \<Rightarrow> Some (visited, s)
      | Some l \<Rightarrow>
          if l \<noteq> head then
            if on_mod (l - members nt LDR_DATA_TABLE_ENTRY_InLoadOrderLinks) = WALK_STOP
            then Some (visited @ [l - members nt LDR_DATA_TABLE_ENTRY_InLoadOrderLinks], s)
            else
              (case read_ptr c s l of
                 (link', s1) \<Rightarrow>
                   list_mods_loop c nt on_mod head link'
                     (visited @ [l - members nt LDR_DATA_TABLE_ENTRY_InLoadOrderLinks]) s1)
          else Some (visited, s))"

text \<open>\<^verbatim>\<open>OsNt::list_mods\<close>. The guard \<^verbatim>\<open>ctx\<close> is declared after the two early returns on the
  PEB pointer; every \<^verbatim>\<open>return\<close> after its declaration runs its destructor.\<close>

definition list_mods ::
  "core \<Rightarrow> OsNt \<Rightarrow> proc_t \<Rightarrow> (mod_t \<Rightarrow> walk_e) \<Rightarrow> st \<Rightarrow> (bool \<times> mod_t list \<times> st) option" where
  "list_mods c nt proc on_mod s =
     (case read_ptr c s (proc_id proc + members nt EPROCESS_Peb) of
        (None, s1) \<Rightarrow> Some (False, [], LOG Unable_to_read_Peb s1)
      | (Some peb, s1) \<Rightarrow>
          if peb = 0 then Some (True, [], s1)
          else
            (case switch_process proc s1 of
               (ctx, s2) \<Rightarrow>
                 (case read_ptr c s2 (peb + members nt PEB_Ldr) of
                    (None, s3) \<Rightarrow> Some (False, [], release ctx (LOG Unable_to_read_Ldr s3))
                  | (Some ldr, s3) \<Rightarrow>
                      (case read_ptr c s3 (ldr + members nt PEB_LDR_DATA_InLoadOrderModuleList) of
                         (link, s4) \<Rightarrow>
                           (case list_mods_loop c nt on_mod
                                   (ldr + members nt PEB_LDR_DATA_InLoadOrderModuleList)
                                   link [] s4 of
                              None \<Rightarrow> None
                            | Some (visited, s5) \<Rightarrow> Some (True, visited, release ctx s5))))))"

definition get_mod_name :: "core \<Rightarrow> OsNt \<Rightarrow> proc_t \<Rightarrow> mod_t \<Rightarrow> st \<Rightarrow> u8 list option \<times> st" where
  "get_mod_name c nt proc md s =
     (case switch_process proc s of
        (ctx, s1) \<Rightarrow>
          (case read_unicode_string c s1 (md + members nt LDR_DATA_TABLE_ENTRY_FullDllName) of
             (r, s2) \<Rightarrow> (r, release ctx s2)))"

definition get_mod_span :: "core \<Rightarrow> OsNt \<Rightarrow> proc_t \<Rightarrow> mod_t \<Rightarrow> st \<Rightarrow> span_t option \<times> st" where
  "get_mod_span c nt proc md s =
     (case switch_process proc s of
        (ctx, s1) \<Rightarrow>
          (case read_ptr c s1 (md + members nt LDR_DATA_TABLE_ENTRY_DllBase) of
             (None, s2) \<Rightarrow> (None, release ctx s2)
           | (Some base, s2) \<Rightarrow>
               (case read_ptr c s2 (md + members nt LDR_DATA_TABLE_ENTRY_SizeOfImage) of
                  (None, s3) \<Rightarrow> (None, release ctx s3)
                | (Some sz, s3) \<Rightarrow>
                    (Some \<lparr>span_addr = base, span_size = sz\<rparr>, release ctx s3))))"

section \<open>Concrete guests\<close>

text \<open>Small guests on which the theorems below are exercised.\<close>

text \<open>The state before any call: the default selection, nothing read, nothing logged.\<close>

definition st0 :: st where
  "st0 = \<lparr>cur = None, reads = [], logs = []\<rparr>"

text \<open>The byte that a list of regions (base address and content) maps at an address; the
  first region that covers the address decides.\<close>

fun bytes_at :: "(u64 \<times> u8 list) list \<Rightarrow> u64 \<Rightarrow> u8 option" where
  "bytes_at [] a = None"
| "bytes_at ((base, bs) # rs) a =
     (if a - base < of_nat (length bs) then Some (bs ! unat (a - base)) else bytes_at rs a)"

text \<open>A guest given by its registers and, for each address-space selection, the byte
  regions mapped under it; the other collaborators are not used by it.\<close>

definition guest :: "(msr_e \<Rightarrow> u64 option) \<Rightarrow> (proc_t option \<Rightarrow> (u64 \<times> u8 list) list) \<Rightarrow> core" where
  "guest regs regions =
     \<lparr>regs_read = regs,
      mem = (\<lambda>sel. bytes_at (regions sel)),
      sym_insert = (\<lambda>m k b. None),
      read_image_size = (\<lambda>buf. None),
      utf8_convert = (\<lambda>b. Some b)\<rparr>"

text \<open>A guest whose bytes below \<open>0x2000\<close> are \<open>0x4D\<close> and zero from there on, with a probe
  that takes a page starting with \<open>0x4D\<close> for a header of declared size \<open>0x5000\<close>.\<close>

definition kernel_core :: core where
  "kernel_core =
     \<lparr>regs_read = (\<lambda>r. None),
      mem = (\<lambda>sel a. if a < 0x2000 then Some 0x4D else Some 0),
      sym_insert = (\<lambda>m k b. None),
      read_image_size = (\<lambda>buf. if buf ! 0 = 0x4D then Some 0x5000 else None),
      utf8_convert = (\<lambda>b. None)\<rparr>"

text \<open>A handler object as constructed, its two arrays holding a fill pattern.\<close>

definition fresh_nt :: OsNt where
  "fresh_nt = \<lparr>members = (\<lambda>i. 0xCDCDCDCDCDCDCDCD), symbols = (\<lambda>i. 0xCDCDCDCDCDCDCDCD)\<rparr>"

text \<open>A guest whose every byte is \<open>0x4D\<close>, whose probe accepts such a page as a header of
  declared size 16, whose syscall-entry register holds \<open>0x1200\<close>, and whose symbol backend
  answers from the given store once the image is ingested.\<close>

definition bootstrap_guest :: "symstore \<Rightarrow> core" where
  "bootstrap_guest sy =
     \<lparr>regs_read = (\<lambda>r. case r of MSR_LSTAR \<Rightarrow> Some 0x1200 | MSR_GS_BASE \<Rightarrow> None
                          | MSR_KERNEL_GS_BASE \<Rightarrow> None),
      mem = (\<lambda>sel a. Some 0x4D),
      sym_insert = (\<lambda>m k b. if m = ''nt'' then Some sy else None),
      read_image_size = (\<lambda>buf. if buf ! 0 = 0x4D then Some 0x10 else None),
      utf8_convert = (\<lambda>b. None)\<rparr>"

text \<open>A store that resolves every catalog entry, with the given address for
  \<open>KiSystemCall64\<close>, and one that lacks a symbol and two members.\<close>

definition full_store :: "u64 \<Rightarrow> symstore" where
  "full_store ksc =
     \<lparr>symbol = (\<lambda>m n. if n = ''KiSystemCall64'' then Some ksc else Some 0xFFFFF80000100000),
      struc_offset = (\<lambda>m st f. Some 0x28)\<rparr>"

definition partial_store :: symstore where
  "partial_store =
     \<lparr>symbol = (\<lambda>m n. if n = ''PsActiveProcessHead'' then None else Some 0x1200),
      struc_offset = (\<lambda>m st f. if f = ''VadRoot'' \<or> f = ''Ldr'' then None else Some 0x28)\<rparr>"

text \<open>Offset tables, each with the entries its guest needs.\<close>

definition walk_offsets :: OsNt where
  "walk_offsets =
     \<lparr>members = (\<lambda>i. 0)
        (EPROCESS_ActiveProcessLinks := 0x40, EPROCESS_Pcb := 0,
         KPROCESS_DirectoryTableBase := 0x28),
      symbols = (\<lambda>i. 0)(PsActiveProcessHead := 0x1000)\<rparr>"

text \<open>A process list whose head at \<open>0x1000\<close> links to one process (links at \<open>0x2000\<close>, so the
  process object is at \<open>0x1FC0\<close> and its page-table root at \<open>0x1FE8\<close>), and whose link field at
  \<open>0x2000\<close> is not mapped.\<close>

definition broken_list_guest :: core where
  "broken_list_guest =
     guest (\<lambda>r. None)
       (\<lambda>sel. [(0x1000, [0x00,0x20,0,0,0,0,0,0]),
               (0x1FE8, [0x00,0xB0,0x1A,0,0,0,0,0])])"

text \<open>A process list of two: the head at \<open>0x1000\<close> links to \<open>0x2000\<close>, that to \<open>0x3000\<close>, that
  back to the head. The page-table root of the first process (at \<open>0x1FE8\<close>) is not mapped, the
  one of the second (at \<open>0x2FE8\<close>) is.\<close>

definition skip_guest :: core where
  "skip_guest =
     guest (\<lambda>r. None)
       (\<lambda>sel. [(0x1000, [0x00,0x20,0,0,0,0,0,0]),
               (0x2000, [0x00,0x30,0,0,0,0,0,0]),
               (0x3000, [0x00,0x10,0,0,0,0,0,0]),
               (0x2FE8, [0x00,0xB0,0x1A,0,0,0,0,0])])"

text \<open>An empty process list: the head at \<open>0x1000\<close> links to itself.\<close>

definition empty_list_guest :: core where
  "empty_list_guest = guest (\<lambda>r. None) (\<lambda>sel. [(0x1000, [0x00,0x10,0,0,0,0,0,0])])"

definition thread_offsets :: OsNt where
  "thread_offsets =
     \<lparr>members = (\<lambda>i. 0)
        (KPCR_Prcb := 0x180, KPRCB_CurrentThread := 0x8, KTHREAD_Process := 0x220,
         KPROCESS_DirectoryTableBase := 0x28, EPROCESS_Pcb := 0x10),
      symbols = (\<lambda>i. 0)\<rparr>"

definition user_mode_guest :: core where
  "user_mode_guest =
     guest (\<lambda>r. case r of MSR_GS_BASE \<Rightarrow> Some 0x7FF000
                 | MSR_KERNEL_GS_BASE \<Rightarrow> Some 0xFFFFF80000001000
                 | MSR_LSTAR \<Rightarrow> None)
       (\<lambda>sel. [(0xFFFFF80000001188, [0x00,0x30,0,0,0x80,0xFA,0xFF,0xFF]),
               (0xFFFFFA8000003220, [0x10,0x50,0,0,0x80,0xFA,0xFF,0xFF]),
               (0xFFFFFA8000005038, [0x00,0xB0,0x1A,0,0,0,0,0])])"




definition module_offsets :: OsNt where
  "module_offsets =
     \<lparr>members = (\<lambda>i. 0)
        (EPROCESS_Peb := 0x3F8, PEB_Ldr := 0x18, PEB_LDR_DATA_InLoadOrderModuleList := 0x10,
         LDR_DATA_TABLE_ENTRY_InLoadOrderLinks := 0, LDR_DATA_TABLE_ENTRY_FullDllName := 0x48,
         LDR_DATA_TABLE_ENTRY_DllBase := 0x30, LDR_DATA_TABLE_ENTRY_SizeOfImage := 0x40),
      symbols = (\<lambda>i. 0)\<rparr>"

definition user_proc :: proc_t where
  "user_proc = \<lparr>proc_id = 0x5000, proc_dtb = 0x1AB000\<rparr>"

text \<open>A process object at \<open>0x5000\<close>, mapped under every selection, whose PEB pointer is
  \<open>0x7000\<close>; under the selection of \<open>user_proc\<close> only, the PEB's loader pointer \<open>0x8000\<close> and a
  load-order list of two modules, \<open>0x9000\<close> and \<open>0xA000\<close>, whose head is at \<open>0x8010\<close>. With
  \<open>with_ldr\<close> false the loader pointer is not mapped.\<close>

definition module_guest :: "bool \<Rightarrow> core" where
  "module_guest with_ldr =
     guest (\<lambda>r. None)
       (\<lambda>sel. (0x53F8, [0x00,0x70,0,0,0,0,0,0]) #
              (if sel = Some user_proc
               then (if with_ldr then [(0x7018, [0x00,0x80,0,0,0,0,0,0])] else []) @
                    [(0x8010, [0x00,0x90,0,0,0,0,0,0]),
                     (0x9000, [0x00,0xA0,0,0,0,0,0,0]),
                     (0xA000, [0x10,0x80,0,0,0,0,0,0])]
               else []))"

definition corrupt_string_guest :: core where
  "corrupt_string_guest =
     guest (\<lambda>r. None)
       (\<lambda>sel. [(0x1000, [4,0, 2,0, 0,0,0,0, 0x00,0x20,0,0,0,0,0,0]), (0x2000, [0x41,0,0x42,0])])"

definition nt_offsets :: OsNt where
  "nt_offsets =
     \<lparr>members = (\<lambda>i. 0)
        (LDR_DATA_TABLE_ENTRY_DllBase := 0x30, LDR_DATA_TABLE_ENTRY_SizeOfImage := 0x40),
      symbols = (\<lambda>i. 0)\<rparr>"

definition proc1 :: proc_t where
  "proc1 = \<lparr>proc_id = 0x8000, proc_dtb = 0x1AB000\<rparr>"

definition span_guest :: core where
  "span_guest =
     guest (\<lambda>r. None)
       (\<lambda>sel. if sel = Some proc1
              then [(0x5030, [0,0,0x40,0,0,0,0,0]), (0x5040, [0,0x90,0,0, 0x34,0x12,0,0])]
              else [])"

section \<open>Verification\<close>

lemmas member_offset_e_defs =
  EPROCESS_ActiveProcessLinks_def
  EPROCESS_ImageFileName_def
  EPROCESS_Pcb_def
  EPROCESS_Peb_def
  EPROCESS_SeAuditProcessCreationInfo_def
  EPROCESS_VadRoot_def
  KPCR_Prcb_def
  KPRCB_CurrentThread_def
  KPROCESS_DirectoryTableBase_def
  KTHREAD_Process_def
  LDR_DATA_TABLE_ENTRY_DllBase_def
  LDR_DATA_TABLE_ENTRY_FullDllName_def
  LDR_DATA_TABLE_ENTRY_InLoadOrderLinks_def
  LDR_DATA_TABLE_ENTRY_SizeOfImage_def
  OBJECT_NAME_INFORMATION_Name_def
  PEB_Ldr_def
  PEB_LDR_DATA_InLoadOrderModuleList_def
  PEB_ProcessParameters_def
  RTL_USER_PROCESS_PARAMETERS_ImagePathName_def
  SE_AUDIT_PROCESS_CREATION_INFO_ImageFileName_def

lemmas symbol_offset_e_defs =
  KiSystemCall64_def PsActiveProcessHead_def PsInitialSystemProcess_def

lemma read_bytes_numeral:
  "read_bytes m a (numeral k) =
     (case m a of
        None \<Rightarrow> None
      | Some b \<Rightarrow> (case read_bytes m (a + 1) (pred_numeral k) of None \<Rightarrow> None | Some bs \<Rightarrow> Some (b # bs)))"
  by (simp add: numeral_eq_Suc)

lemma read_ptr_eq:
  "read_ptr c s a = (map_option read_le64 (read_bytes (mem c (cur s)) a 8),
                     s\<lparr>reads := reads s @ [(a, 8)]\<rparr>)"
  by (simp add: read_ptr_def read_def)

lemma read_bytes_replicate:
  "(\<forall>i<n. m (a + of_nat i) = Some b) \<Longrightarrow> read_bytes m a n = Some (replicate n b)"
proof (induction n arbitrary: a)
  case 0
  then show ?case by simp
next
  case (Suc n)
  have "m (a + of_nat 0) = Some b" using Suc.prems by blast
  then have 1: "m a = Some b" by simp
  have "\<forall>i<n. m ((a + 1) + of_nat i) = Some b"
  proof (intro allI impI)
    fix i assume "i < n"
    then have "m (a + of_nat (Suc i)) = Some b" using Suc.prems by blast
    then show "m ((a + 1) + of_nat i) = Some b" by (simp add: ac_simps)
  qed
  then have "read_bytes m (a + 1) n = Some (replicate n b)" by (rule Suc.IH)
  with 1 show ?case by simp
qed

lemma kernel_core_page1: "read_bytes (mem kernel_core sel) 0x1000 4096 = Some (replicate 4096 0x4D)"
proof (rule read_bytes_replicate, intro allI impI)
  fix i :: nat assume i: "i < 4096"
  then have "unat (0x1000 + of_nat i :: u64) = 4096 + i"
    by (simp add: unat_word_ariths unat_of_nat)
  then have "(0x1000 + of_nat i :: u64) < 0x2000" using i by (simp add: word_less_nat_alt)
  then show "mem kernel_core sel (0x1000 + of_nat i) = Some 0x4D" by (simp add: kernel_core_def)
qed

lemma kernel_core_page2: "read_bytes (mem kernel_core sel) 0x2000 4096 = Some (replicate 4096 0)"
proof (rule read_bytes_replicate, intro allI impI)
  fix i :: nat assume i: "i < 4096"
  then have "unat (0x2000 + of_nat i :: u64) = 8192 + i"
    by (simp add: unat_word_ariths unat_of_nat)
  then have "\<not> (0x2000 + of_nat i :: u64) < 0x2000" using i by (simp add: word_less_nat_alt)
  then show "mem kernel_core sel (0x2000 + of_nat i) = Some 0" by (simp add: kernel_core_def)
qed

lemma kernel_core_probe:
  "read_image_size kernel_core buf = (if buf ! 0 = 0x4D then Some 0x5000 else None)"
  by (simp add: kernel_core_def)

lemma find_kernel_loop_skip:
  assumes "\<forall>j<k. ptr - of_nat j * 0x1000 < lstar \<and>
             (\<exists>buf. read_bytes (mem c (cur s)) (ptr - of_nat j * 0x1000) PAGE_SIZE = Some buf
                  \<and> read_image_size c buf = None)"
  shows "find_kernel_loop c lstar ptr s =
         find_kernel_loop c lstar (ptr - of_nat k * 0x1000)
           (s\<lparr>reads := reads s @ map (\<lambda>j. (ptr - of_nat j * 0x1000, PAGE_SIZE)) [0..<k]\<rparr>)"
  using assms
proof (induction k)
  case 0
  then show ?case by simp
next
  case (Suc k)
  let ?p = "ptr - of_nat k * 0x1000"
  let ?s = "s\<lparr>reads := reads s @ map (\<lambda>j. (ptr - of_nat j * 0x1000, PAGE_SIZE)) [0..<k]\<rparr>"
  from Suc.prems have lt: "?p < lstar"
    and rd: "\<exists>buf. read_bytes (mem c (cur s)) ?p PAGE_SIZE = Some buf \<and> read_image_size c buf = None"
    by simp_all
  from rd obtain buf where buf: "read_bytes (mem c (cur s)) ?p PAGE_SIZE = Some buf"
    and nohdr: "read_image_size c buf = None" by blast
  have "find_kernel_loop c lstar ptr s = find_kernel_loop c lstar ?p ?s"
    using Suc by simp
  also have "\<dots> = find_kernel_loop c lstar (?p - of_nat PAGE_SIZE)
                    (?s\<lparr>reads := reads ?s @ [(?p, PAGE_SIZE)]\<rparr>)"
    by (subst find_kernel_loop.simps) (simp add: lt read_def buf nohdr)
  also have "?p - of_nat PAGE_SIZE = ptr - of_nat (Suc k) * 0x1000"
    by (simp add: algebra_simps PAGE_SIZE_def)
  finally show ?case by simp
qed

lemma find_kernel_loop_below:
  assumes "find_kernel_loop c lstar ptr s = Some r"
  shows "\<forall>sp. fst r = Some sp \<longrightarrow> span_addr sp < lstar"
  by (rule find_kernel_loop.raw_induct
        [where P = "\<lambda>c lstar ptr s r. \<forall>sp. fst r = Some sp \<longrightarrow> span_addr sp < lstar", OF _ assms])
     (auto simp: read_def split: if_splits option.splits prod.splits)

lemma sub_page_wraps:
  assumes "(x::u64) < 0x1000" "l \<le> 0xFFFFFFFFFFFFF000"
  shows "\<not> (x - 0x1000 < l)"
proof -
  have "unat x < 4096" using assms(1) by (simp add: word_less_nat_alt)
  then have "unat (x - 0x1000) = unat x + 2 ^ 64 - 4096"
    by (simp add: unat_sub_if_size word_size)
  moreover have "unat l \<le> 2 ^ 64 - 4096" using assms(2) by (simp add: word_le_nat_alt)
  ultimately show ?thesis by (simp add: word_less_nat_alt)
qed

lemma sub_page_less: "(x::u64) \<ge> 0x1000 \<Longrightarrow> unat (x - 0x1000) < unat x"
  by unat_arith

lemma find_kernel_loop_returns:
  assumes "lstar \<le> 0xFFFFFFFFFFFFF000"
  shows "\<exists>r. find_kernel_loop c lstar ptr s = Some r"
proof (induction "unat ptr" arbitrary: ptr s rule: less_induct)
  case less
  show ?case
  proof (cases "ptr < 0x1000")
    case True
    then have "\<not> (ptr - 0x1000 < lstar)" using assms by (rule sub_page_wraps)
    then have "\<And>s1. find_kernel_loop c lstar (ptr - 0x1000) s1 = Some (None, s1)"
      by (subst find_kernel_loop.simps) simp
    then show ?thesis
      by (subst find_kernel_loop.simps) (simp add: PAGE_SIZE_def split: prod.splits option.splits)
  next
    case False
    then have "unat (ptr - 0x1000) < unat ptr" by (intro sub_page_less) simp
    then have "\<And>s1. \<exists>r. find_kernel_loop c lstar (ptr - 0x1000) s1 = Some r"
      by (rule less)
    then show ?thesis
      by (subst find_kernel_loop.simps) (simp add: PAGE_SIZE_def split: prod.splits option.splits)
  qed
qed

lemma align_neq:
  assumes "x AND 0xFFF \<noteq> 0"
  shows "align x \<noteq> x"
proof
  assume "align x = x"
  then have "x AND 0xFFF = (x AND NOT 0xFFF) AND 0xFFF" by (simp add: align_def)
  also have "\<dots> = x AND (NOT 0xFFF AND 0xFFF)" by (simp only: and.assoc)
  also have "\<dots> = 0" by simp
  finally show False using assms by simp
qed

lemma align_le: "align x \<le> x"
  unfolding align_def using word_and_le2 by auto

lemma align_less: "x AND 0xFFF \<noteq> 0 \<Longrightarrow> align x < x"
  using align_neq[of x] align_le[of x] by simp

lemma unat_pages:
  assumes "k * 4096 \<le> unat (p::u64)" "j \<le> k"
  shows "unat (of_nat j * 0x1000 :: u64) = j * 4096"
proof -
  have "unat p < 2 ^ 64" using unsigned_less[of p] by simp
  moreover have "j * 4096 \<le> k * 4096" using assms(2) by simp
  ultimately have lt: "j * 4096 < 2 ^ 64" using assms(1) by linarith
  have eq: "of_nat (j * 4096) = (of_nat j * 0x1000 :: u64)" by simp
  show ?thesis by (rule of_nat_inverse[OF eq]) (use lt in simp)
qed

lemma page_le:
  assumes "k * 4096 \<le> unat (p::u64)" "j \<le> k"
  shows "p - of_nat j * 0x1000 \<le> p"
proof -
  have "unat (of_nat j * 0x1000 :: u64) = j * 4096"
    using assms by (rule unat_pages)
  moreover have "j * 4096 \<le> unat p" using assms by simp
  ultimately have "(of_nat j * 0x1000 :: u64) \<le> p"
    by (simp add: word_le_nat_alt)
  then show ?thesis by (simp add: word_sub_le)
qed

text \<open>Claim C3, for register values that are not a multiple of the page size.
  \<^verbatim>\<open>find_kernel\<close> probes the enclosing page first and then one page lower at a time: after
  \<open>k\<close> readable pages without a header (the scan not yet below address 0), a failed read of
  the next page gives an absent result at once, and a header there gives that page with
  its declared size; the reads issued are exactly those \<open>k + 1\<close> pages in descending order.
  For every register value, a returned span starts below it, and the scan returns for
  every register value up to \<open>0xFFFFFFFFFFFFF000\<close>.\<close>

theorem find_kernel_backward_scan:
  assumes nowrap: "k * PAGE_SIZE \<le> unat (align lstar)"
    and skipped: "\<forall>j<k. \<exists>buf.
          read_bytes (mem c (cur s)) (align lstar - of_nat j * 0x1000) PAGE_SIZE = Some buf
          \<and> read_image_size c buf = None"
  shows "(lstar AND 0xFFF \<noteq> 0 \<longrightarrow>
            (read_bytes (mem c (cur s)) (align lstar - of_nat k * 0x1000) PAGE_SIZE = None \<longrightarrow>
               find_kernel c lstar s =
                 Some (None, s\<lparr>reads := reads s @
                    map (\<lambda>j. (align lstar - of_nat j * 0x1000, PAGE_SIZE)) [0..<Suc k]\<rparr>))
          \<and> (\<forall>buf sz. read_bytes (mem c (cur s)) (align lstar - of_nat k * 0x1000) PAGE_SIZE = Some buf
                  \<and> read_image_size c buf = Some sz \<longrightarrow>
               find_kernel c lstar s =
                 Some (Some \<lparr>span_addr = align lstar - of_nat k * 0x1000, span_size = sz\<rparr>,
                       s\<lparr>reads := reads s @
                    map (\<lambda>j. (align lstar - of_nat j * 0x1000, PAGE_SIZE)) [0..<Suc k]\<rparr>)))
       \<and> (\<forall>sp s'. find_kernel c lstar s = Some (Some sp, s') \<longrightarrow> span_addr sp < lstar)
       \<and> (lstar \<le> 0xFFFFFFFFFFFFF000 \<longrightarrow> (\<exists>r. find_kernel c lstar s = Some r))"
proof (intro conjI impI allI)
  let ?p = "align lstar"
  let ?pk = "?p - of_nat k * 0x1000"
  let ?sk = "s\<lparr>reads := reads s @ map (\<lambda>j. (?p - of_nat j * 0x1000, PAGE_SIZE)) [0..<k]\<rparr>"
  have below: "?p - of_nat j * 0x1000 < lstar" if "lstar AND 0xFFF \<noteq> 0" "j \<le> k" for j
  proof -
    have "?p - of_nat j * 0x1000 \<le> ?p"
      using nowrap that(2) by (intro page_le[of k]) (simp_all add: PAGE_SIZE_def)
    also have "?p < lstar" using that(1) by (rule align_less)
    finally show ?thesis .
  qed
  have skip: "find_kernel c lstar s = find_kernel_loop c lstar ?pk ?sk" if na: "lstar AND 0xFFF \<noteq> 0"
  proof -
    have "\<forall>j<k. ?p - of_nat j * 0x1000 < lstar \<and> (\<exists>buf.
          read_bytes (mem c (cur s)) (?p - of_nat j * 0x1000) PAGE_SIZE = Some buf
          \<and> read_image_size c buf = None)"
      using skipped below[OF na] by simp
    then show ?thesis
      unfolding find_kernel_def by (rule find_kernel_loop_skip)
  qed
  {
    assume na: "lstar AND 0xFFF \<noteq> 0"
      and rd: "read_bytes (mem c (cur s)) ?pk PAGE_SIZE = None"
    have "find_kernel_loop c lstar ?pk ?sk = Some (None, ?sk\<lparr>reads := reads ?sk @ [(?pk, PAGE_SIZE)]\<rparr>)"
      using below[OF na, of k] rd by (subst find_kernel_loop.simps) (simp add: read_def)
    then show "find_kernel c lstar s =
        Some (None, s\<lparr>reads := reads s @ map (\<lambda>j. (?p - of_nat j * 0x1000, PAGE_SIZE)) [0..<Suc k]\<rparr>)"
      by (simp add: skip[OF na])
  }
  {
    fix buf sz
    assume na: "lstar AND 0xFFF \<noteq> 0"
      and rd: "read_bytes (mem c (cur s)) ?pk PAGE_SIZE = Some buf \<and> read_image_size c buf = Some sz"
    have "find_kernel_loop c lstar ?pk ?sk =
         Some (Some \<lparr>span_addr = ?pk, span_size = sz\<rparr>, ?sk\<lparr>reads := reads ?sk @ [(?pk, PAGE_SIZE)]\<rparr>)"
      using below[OF na, of k] rd by (subst find_kernel_loop.simps) (simp add: read_def)
    then show "find_kernel c lstar s =
        Some (Some \<lparr>span_addr = ?pk, span_size = sz\<rparr>,
              s\<lparr>reads := reads s @ map (\<lambda>j. (?p - of_nat j * 0x1000, PAGE_SIZE)) [0..<Suc k]\<rparr>)"
      by (simp add: skip[OF na])
  }
  {
    fix sp s'
    assume "find_kernel c lstar s = Some (Some sp, s')"
    then have "find_kernel_loop c lstar (align lstar) s = Some (Some sp, s')"
      by (simp add: find_kernel_def)
    from find_kernel_loop_below[OF this] show "span_addr sp < lstar" by simp
  }
  {
    assume "lstar \<le> 0xFFFFFFFFFFFFF000"
    then show "\<exists>r. find_kernel c lstar s = Some r"
      unfolding find_kernel_def by (rule find_kernel_loop_returns)
  }
qed

text \<open>The scan on a guest whose page \<open>0x2000\<close> is readable without a header and whose
  page \<open>0x1000\<close> holds one: from \<open>0x2010\<close> both pages are probed, in that order.\<close>

theorem find_kernel_backward_scan_witness:
  "1 * PAGE_SIZE \<le> unat (align 0x2010)
   \<and> read_bytes (mem kernel_core (cur st0)) (align 0x2010 - of_nat 0 * 0x1000) PAGE_SIZE = Some (replicate 4096 0)
   \<and> read_image_size kernel_core (replicate 4096 0) = None
   \<and> read_bytes (mem kernel_core (cur st0)) (align 0x2010 - of_nat 1 * 0x1000) PAGE_SIZE = Some (replicate 4096 0x4D)
   \<and> read_image_size kernel_core (replicate 4096 0x4D) = Some 0x5000
   \<and> find_kernel kernel_core 0x2010 st0 =
       Some (Some \<lparr>span_addr = 0x1000, span_size = 0x5000\<rparr>,
             st0\<lparr>reads := [(0x2000, 4096), (0x1000, 4096)]\<rparr>)"
proof -
  have al: "align 0x2010 = 0x2000" by (simp add: align_def)
  have h1: "1 * PAGE_SIZE \<le> unat (align 0x2010)" by (simp add: al PAGE_SIZE_def)
  have p0: "read_bytes (mem kernel_core (cur st0)) (align 0x2010 - of_nat 0 * 0x1000) PAGE_SIZE
              = Some (replicate 4096 0)"
    by (simp add: al PAGE_SIZE_def kernel_core_page2)
  have n0: "read_image_size kernel_core (replicate 4096 0) = None"
    by (simp add: kernel_core_probe)
  have p1: "read_bytes (mem kernel_core (cur st0)) (align 0x2010 - of_nat 1 * 0x1000) PAGE_SIZE
              = Some (replicate 4096 0x4D)"
    by (simp add: al PAGE_SIZE_def kernel_core_page1)
  have n1: "read_image_size kernel_core (replicate 4096 0x4D) = Some 0x5000"
    by (simp add: kernel_core_probe)
  have h2: "\<forall>j<1. \<exists>buf.
          read_bytes (mem kernel_core (cur st0)) (align 0x2010 - of_nat j * 0x1000) PAGE_SIZE = Some buf
          \<and> read_image_size kernel_core buf = None"
    using p0 n0 by simp
  have "find_kernel kernel_core 0x2010 st0 =
       Some (Some \<lparr>span_addr = 0x1000, span_size = 0x5000\<rparr>,
             st0\<lparr>reads := [(0x2000, 4096), (0x1000, 4096)]\<rparr>)"
    using find_kernel_backward_scan [OF h1 h2] p1 n1
    by (simp add: al PAGE_SIZE_def st0_def)
  with h1 p0 n0 p1 n1 show ?thesis by blast
qed

text \<open>The same guest with the register value \<open>0x2000\<close>, a multiple of the page size: the
  enclosing page is readable and the page below it holds a header, yet no page is probed
  and the result is absent.\<close>

theorem find_kernel_aligned_counterexample:
  "align 0x2000 = 0x2000
   \<and> read_bytes (mem kernel_core (cur st0)) 0x2000 PAGE_SIZE = Some (replicate 4096 0)
   \<and> read_image_size kernel_core (replicate 4096 0) = None
   \<and> read_bytes (mem kernel_core (cur st0)) (0x2000 - 0x1000) PAGE_SIZE = Some (replicate 4096 0x4D)
   \<and> read_image_size kernel_core (replicate 4096 0x4D) = Some 0x5000
   \<and> find_kernel kernel_core 0x2000 st0 = Some (None, st0)
   \<and> reads st0 = []"
  by (simp add: align_def PAGE_SIZE_def kernel_core_page1 kernel_core_page2 kernel_core_probe
        find_kernel_def find_kernel_loop.simps) (simp add: st0_def)

lemma symbols_step_apply:
  "symbols_step sy i (fail, nt, s) =
     (case symbol_at sy i of
        None \<Rightarrow> (True, nt, LOG (symbol_missing i) s)
      | Some addr \<Rightarrow> (fail, nt\<lparr>symbols := (symbols nt)(i := addr)\<rparr>, s))"
  by (simp add: symbols_step_def)

lemma members_step_apply:
  "members_step sy i (fail, nt, s) =
     (case member_at sy i of
        None \<Rightarrow> (True, nt, LOG (member_missing i) s)
      | Some offset \<Rightarrow> (fail, nt\<lparr>members := (members nt)(i := offset)\<rparr>, s))"
  by (simp add: members_step_def)

lemma symbols_fold:
  "fold (symbols_step sy) js (fail, nt, s) =
     (fail \<or> (\<exists>i\<in>set js. symbol_at sy i = None),
      nt\<lparr>symbols := fold (\<lambda>i f. case symbol_at sy i of None \<Rightarrow> f | Some a \<Rightarrow> f(i := a)) js (symbols nt)\<rparr>,
      s\<lparr>logs := logs s @ map symbol_missing (filter (\<lambda>i. symbol_at sy i = None) js)\<rparr>)"
proof (induction js arbitrary: fail nt s)
  case Nil
  then show ?case by simp
next
  case (Cons j js)
  show ?case
    by (cases "symbol_at sy j") (simp_all add: symbols_step_apply LOG_def Cons.IH fun_upd_def)
qed

lemma members_fold:
  "fold (members_step sy) js (fail, nt, s) =
     (fail \<or> (\<exists>i\<in>set js. member_at sy i = None),
      nt\<lparr>members := fold (\<lambda>i f. case member_at sy i of None \<Rightarrow> f | Some a \<Rightarrow> f(i := a)) js (members nt)\<rparr>,
      s\<lparr>logs := logs s @ map member_missing (filter (\<lambda>i. member_at sy i = None) js)\<rparr>)"
proof (induction js arbitrary: fail nt s)
  case Nil
  then show ?case by simp
next
  case (Cons j js)
  show ?case
    by (cases "member_at sy j") (simp_all add: members_step_apply LOG_def Cons.IH fun_upd_def)
qed

lemma table_fold_resolved:
  assumes "i \<in> set js" "look i = Some a"
  shows "fold (\<lambda>i f. case look i of None \<Rightarrow> f | Some a \<Rightarrow> f(i := a)) js f i = a"
  using assms
proof (induction js arbitrary: f rule: rev_induct)
  case Nil
  then show ?case by simp
next
  case (snoc j js)
  show ?case
  proof (cases "i = j")
    case True
    with snoc.prems show ?thesis by simp
  next
    case False
    with snoc.prems have "i \<in> set js" by simp
    from snoc.IH[OF this snoc.prems(2)] False show ?thesis
      by (simp split: option.splits)
  qed
qed

lemma resolve_offsets_eq:
  "resolve_offsets sy nt s =
     ((\<exists>i<SYMBOL_OFFSET_COUNT. symbol_at sy i = None) \<or> (\<exists>i<MEMBER_OFFSET_COUNT. member_at sy i = None),
      \<lparr>members = fold (\<lambda>i f. case member_at sy i of None \<Rightarrow> f | Some a \<Rightarrow> f(i := a))
                    [0..<MEMBER_OFFSET_COUNT] (members nt),
       symbols = fold (\<lambda>i f. case symbol_at sy i of None \<Rightarrow> f | Some a \<Rightarrow> f(i := a))
                    [0..<SYMBOL_OFFSET_COUNT] (symbols nt)\<rparr>,
      s\<lparr>logs := logs s
           @ map symbol_missing (filter (\<lambda>i. symbol_at sy i = None) [0..<SYMBOL_OFFSET_COUNT])
           @ map member_missing (filter (\<lambda>i. member_at sy i = None) [0..<MEMBER_OFFSET_COUNT])\<rparr>)"
  by (auto simp add: resolve_offsets_def symbols_fold members_fold)

lemma setup_after_ingest:
  assumes "regs_read c MSR_LSTAR = Some lstar"
    and "find_kernel c lstar s = Some (Some kern, s1)"
    and "read c (LOG (Info_kernel (span_addr kern) (span_size kern)) s1)
           (span_addr kern) (unat (span_size kern)) = (Some buffer, s2)"
    and "sym_insert c ''nt'' kern buffer = Some sy"
  shows "OsNt_setup c nt s =
     (case resolve_offsets sy nt s2 of
        (fail, nt', s3) \<Rightarrow>
          if fail then Some (False, nt', s3)
          else if lstar \<noteq> symbols nt' KiSystemCall64
          then Some (False, nt', LOG (PDB_mismatch lstar (symbols nt' KiSystemCall64)) s3)
          else Some (True, nt', s3))"
  using assms by (simp add: OsNt_setup_def)

text \<open>Claim C1. A handler that \<^verbatim>\<open>make_nt\<close> hands out comes from a bootstrap whose register
  read, kernel location, image read and ingestion succeeded and whose two tables hold, at
  every index of the two catalogs, the value the symbol store resolved for that entry.
  And when the bootstrap reaches the resolution step with at least one entry missing,
  \<^verbatim>\<open>make_nt\<close> returns no handler, after both loops have run over the whole catalogs: the
  log gains one diagnostic for each missing entry, symbols first, in catalog order.\<close>

theorem make_nt_all_or_nothing:
  "(\<forall>nt s'. make_nt c fresh s = Some (Some nt, s') \<longrightarrow>
      (\<exists>lstar kern s1 buffer s2 sy.
          regs_read c MSR_LSTAR = Some lstar
        \<and> find_kernel c lstar s = Some (Some kern, s1)
        \<and> read c (LOG (Info_kernel (span_addr kern) (span_size kern)) s1)
             (span_addr kern) (unat (span_size kern)) = (Some buffer, s2)
        \<and> sym_insert c ''nt'' kern buffer = Some sy
        \<and> (\<forall>i<SYMBOL_OFFSET_COUNT. symbol_at sy i = Some (symbols nt i))
        \<and> (\<forall>i<MEMBER_OFFSET_COUNT. member_at sy i = Some (members nt i))))
   \<and> (\<forall>lstar kern s1 buffer s2 sy.
          regs_read c MSR_LSTAR = Some lstar
        \<and> find_kernel c lstar s = Some (Some kern, s1)
        \<and> read c (LOG (Info_kernel (span_addr kern) (span_size kern)) s1)
             (span_addr kern) (unat (span_size kern)) = (Some buffer, s2)
        \<and> sym_insert c ''nt'' kern buffer = Some sy
        \<and> ((\<exists>i<SYMBOL_OFFSET_COUNT. symbol_at sy i = None)
             \<or> (\<exists>i<MEMBER_OFFSET_COUNT. member_at sy i = None))
        \<longrightarrow> make_nt c fresh s =
              Some (None, s2\<lparr>logs := logs s2
                @ map symbol_missing (filter (\<lambda>i. symbol_at sy i = None) [0..<SYMBOL_OFFSET_COUNT])
                @ map member_missing (filter (\<lambda>i. member_at sy i = None) [0..<MEMBER_OFFSET_COUNT])\<rparr>))"
proof (intro conjI allI impI)
  fix nt s'
  assume ok: "make_nt c fresh s = Some (Some nt, s')"
  then obtain lstar where l: "regs_read c MSR_LSTAR = Some lstar"
    by (auto simp: make_nt_def OsNt_setup_def split: option.splits if_splits)
  from ok l obtain kern s1 where k: "find_kernel c lstar s = Some (Some kern, s1)"
    by (auto simp: make_nt_def OsNt_setup_def split: option.splits if_splits prod.splits)
  from ok l k obtain buffer s2 where
    b: "read c (LOG (Info_kernel (span_addr kern) (span_size kern)) s1)
             (span_addr kern) (unat (span_size kern)) = (Some buffer, s2)"
    by (auto simp: make_nt_def OsNt_setup_def split: option.splits if_splits prod.splits)
  from ok l k b obtain sy where y: "sym_insert c ''nt'' kern buffer = Some sy"
    by (auto simp: make_nt_def OsNt_setup_def split: option.splits if_splits prod.splits)
  note su = setup_after_ingest[OF l k b y, of fresh]
  from ok have nofail: "\<not> ((\<exists>i<SYMBOL_OFFSET_COUNT. symbol_at sy i = None)
       \<or> (\<exists>i<MEMBER_OFFSET_COUNT. member_at sy i = None))"
    and nt: "nt = \<lparr>members = fold (\<lambda>i f. case member_at sy i of None \<Rightarrow> f | Some a \<Rightarrow> f(i := a))
                    [0..<MEMBER_OFFSET_COUNT] (members fresh),
       symbols = fold (\<lambda>i f. case symbol_at sy i of None \<Rightarrow> f | Some a \<Rightarrow> f(i := a))
                    [0..<SYMBOL_OFFSET_COUNT] (symbols fresh)\<rparr>"
    by (auto simp: make_nt_def su resolve_offsets_eq split: if_splits)
  have "\<forall>i<SYMBOL_OFFSET_COUNT. symbol_at sy i = Some (symbols nt i)"
  proof (intro allI impI)
    fix i assume i: "i < SYMBOL_OFFSET_COUNT"
    with nofail obtain a where a: "symbol_at sy i = Some a" by auto
    from i have "i \<in> set [0..<SYMBOL_OFFSET_COUNT]" by simp
    from table_fold_resolved[of i _ "symbol_at sy", OF this a] a
    show "symbol_at sy i = Some (symbols nt i)" by (simp add: nt)
  qed
  moreover have "\<forall>i<MEMBER_OFFSET_COUNT. member_at sy i = Some (members nt i)"
  proof (intro allI impI)
    fix i assume i: "i < MEMBER_OFFSET_COUNT"
    with nofail obtain a where a: "member_at sy i = Some a" by auto
    from i have "i \<in> set [0..<MEMBER_OFFSET_COUNT]" by simp
    from table_fold_resolved[of i _ "member_at sy", OF this a] a
    show "member_at sy i = Some (members nt i)" by (simp add: nt)
  qed
  ultimately show "\<exists>lstar kern s1 buffer s2 sy.
          regs_read c MSR_LSTAR = Some lstar
        \<and> find_kernel c lstar s = Some (Some kern, s1)
        \<and> read c (LOG (Info_kernel (span_addr kern) (span_size kern)) s1)
             (span_addr kern) (unat (span_size kern)) = (Some buffer, s2)
        \<and> sym_insert c ''nt'' kern buffer = Some sy
        \<and> (\<forall>i<SYMBOL_OFFSET_COUNT. symbol_at sy i = Some (symbols nt i))
        \<and> (\<forall>i<MEMBER_OFFSET_COUNT. member_at sy i = Some (members nt i))"
    using l k b y by blast
next
  fix lstar kern s1 buffer s2 sy
  assume h: "regs_read c MSR_LSTAR = Some lstar
        \<and> find_kernel c lstar s = Some (Some kern, s1)
        \<and> read c (LOG (Info_kernel (span_addr kern) (span_size kern)) s1)
             (span_addr kern) (unat (span_size kern)) = (Some buffer, s2)
        \<and> sym_insert c ''nt'' kern buffer = Some sy
        \<and> ((\<exists>i<SYMBOL_OFFSET_COUNT. symbol_at sy i = None)
             \<or> (\<exists>i<MEMBER_OFFSET_COUNT. member_at sy i = None))"
  then have l: "regs_read c MSR_LSTAR = Some lstar"
    and k: "find_kernel c lstar s = Some (Some kern, s1)"
    and b: "read c (LOG (Info_kernel (span_addr kern) (span_size kern)) s1)
             (span_addr kern) (unat (span_size kern)) = (Some buffer, s2)"
    and y: "sym_insert c ''nt'' kern buffer = Some sy"
    by simp_all
  note su = setup_after_ingest[OF l k b y, of fresh]
  from h show "make_nt c fresh s =
              Some (None, s2\<lparr>logs := logs s2
                @ map symbol_missing (filter (\<lambda>i. symbol_at sy i = None) [0..<SYMBOL_OFFSET_COUNT])
                @ map member_missing (filter (\<lambda>i. member_at sy i = None) [0..<MEMBER_OFFSET_COUNT])\<rparr>)"
    by (simp add: make_nt_def su resolve_offsets_eq)
qed

text \<open>Claim C2. When the register read, the kernel location, the image read, the ingestion
  and every catalog resolution succeed, \<^verbatim>\<open>setup\<close> returns true exactly when the address
  resolved for \<open>KiSystemCall64\<close> equals the register value; when they differ it returns
  false and the one diagnostic it adds is the PDB-mismatch message with both values, not a
  lookup-failure message.\<close>

theorem setup_checks_syscall_entry:
  assumes "regs_read c MSR_LSTAR = Some lstar"
    and "find_kernel c lstar s = Some (Some kern, s1)"
    and "read c (LOG (Info_kernel (span_addr kern) (span_size kern)) s1)
           (span_addr kern) (unat (span_size kern)) = (Some buffer, s2)"
    and "sym_insert c ''nt'' kern buffer = Some sy"
    and "\<forall>i<SYMBOL_OFFSET_COUNT. symbol_at sy i \<noteq> None"
    and "\<forall>i<MEMBER_OFFSET_COUNT. member_at sy i \<noteq> None"
    and "symbol sy ''nt'' ''KiSystemCall64'' = Some a"
  shows "\<exists>nt'. OsNt_setup c nt s =
            Some (a = lstar, nt', if a = lstar then s2 else LOG (PDB_mismatch lstar a) s2)
          \<and> symbols nt' KiSystemCall64 = a"
proof -
  have a0: "symbol_at sy 0 = Some a"
    using assms(7) by (simp add: g_symbol_offsets_def)
  have "0 \<in> set [0..<SYMBOL_OFFSET_COUNT]" by (simp add: SYMBOL_OFFSET_COUNT_def)
  from table_fold_resolved[of 0 _ "symbol_at sy", OF this a0]
  have ksc: "fold (\<lambda>i f. case symbol_at sy i of None \<Rightarrow> f | Some a \<Rightarrow> f(i := a))
                    [0..<SYMBOL_OFFSET_COUNT] (symbols nt) KiSystemCall64 = a"
    by (simp add: KiSystemCall64_def)
  have nofail: "\<not> ((\<exists>i<SYMBOL_OFFSET_COUNT. symbol_at sy i = None)
       \<or> (\<exists>i<MEMBER_OFFSET_COUNT. member_at sy i = None))"
    using assms(5,6) by blast
  have filt: "filter (\<lambda>i. symbol_at sy i = None) [0..<SYMBOL_OFFSET_COUNT] = []"
     "filter (\<lambda>i. member_at sy i = None) [0..<MEMBER_OFFSET_COUNT] = []"
    using assms(5,6) by (simp_all add: filter_empty_conv)
  show ?thesis
    using nofail ksc
    by (auto simp add: setup_after_ingest[OF assms(1-4)] resolve_offsets_eq filt)
qed

lemma read_bytes_const: "read_bytes (\<lambda>a. Some b) a n = Some (replicate n b)"
  by (induction n arbitrary: a) simp_all

lemma bootstrap_guest_kernel:
  "find_kernel (bootstrap_guest sy) 0x1200 s =
     Some (Some \<lparr>span_addr = 0x1000, span_size = 0x10\<rparr>, s\<lparr>reads := reads s @ [(0x1000, 4096)]\<rparr>)"
  by (simp add: find_kernel_def align_def find_kernel_loop.simps read_def PAGE_SIZE_def
        bootstrap_guest_def read_bytes_const)

lemma bootstrap_guest_image:
  "read (bootstrap_guest sy) s 0x1000 (unat (0x10 :: u64)) =
     (Some (replicate 16 0x4D), s\<lparr>reads := reads s @ [(0x1000, 16)]\<rparr>)"
  by (simp add: read_def bootstrap_guest_def read_bytes_const)

lemma symbol_indices: "[0..<SYMBOL_OFFSET_COUNT] = [0, 1, 2]"
  unfolding SYMBOL_OFFSET_COUNT_def by code_simp

lemma member_indices:
  "[0..<MEMBER_OFFSET_COUNT] = [0, 1, 2, 3, 4, 5, 6, 7, 8, 9, 10, 11, 12, 13, 14, 15, 16, 17, 18, 19]"
  unfolding MEMBER_OFFSET_COUNT_def by code_simp

lemma partial_store_symbols:
  "map symbol_missing (filter (\<lambda>i. symbol_at partial_store i = None) [0..<SYMBOL_OFFSET_COUNT])
     = [Unable_to_read_symbol_offset ''nt'' ''PsActiveProcessHead'']"
  by (simp add: symbol_indices g_symbol_offsets_def partial_store_def)

lemma partial_store_members:
  "map member_missing (filter (\<lambda>i. member_at partial_store i = None) [0..<MEMBER_OFFSET_COUNT])
     = [Unable_to_read_member_offset ''nt'' ''_EPROCESS'' ''VadRoot'',
        Unable_to_read_member_offset ''nt'' ''_PEB'' ''Ldr'']"
  by (simp add: member_indices g_member_offsets_def partial_store_def)

text \<open>A bootstrap whose store lacks the symbol \<open>PsActiveProcessHead\<close> and the members
  \<open>VadRoot\<close> and \<open>Ldr\<close>: no handler, and all three are reported.\<close>

theorem make_nt_all_or_nothing_witness:
  "regs_read (bootstrap_guest partial_store) MSR_LSTAR = Some 0x1200
   \<and> symbol_at partial_store 1 = None
   \<and> make_nt (bootstrap_guest partial_store) fresh_nt st0 =
       Some (None,
         \<lparr>cur = None, reads = [(0x1000, 4096), (0x1000, 16)],
          logs = [Info_kernel 0x1000 0x10,
                  Unable_to_read_symbol_offset ''nt'' ''PsActiveProcessHead'',
                  Unable_to_read_member_offset ''nt'' ''_EPROCESS'' ''VadRoot'',
                  Unable_to_read_member_offset ''nt'' ''_PEB'' ''Ldr'']\<rparr>)"
proof -
  let ?c = "bootstrap_guest partial_store"
  let ?kern = "\<lparr>span_addr = 0x1000, span_size = 0x10\<rparr> :: span_t"
  let ?s1 = "st0\<lparr>reads := reads st0 @ [(0x1000, 4096)]\<rparr>"
  let ?s2 = "(LOG (Info_kernel 0x1000 0x10) ?s1)\<lparr>reads := reads (LOG (Info_kernel 0x1000 0x10) ?s1) @ [(0x1000, 16)]\<rparr>"
  have l: "regs_read ?c MSR_LSTAR = Some 0x1200" by (simp add: bootstrap_guest_def)
  have k: "find_kernel ?c 0x1200 st0 = Some (Some ?kern, ?s1)" by (rule bootstrap_guest_kernel)
  have b: "read ?c (LOG (Info_kernel (span_addr ?kern) (span_size ?kern)) ?s1)
             (span_addr ?kern) (unat (span_size ?kern)) = (Some (replicate 16 0x4D), ?s2)"
    using bootstrap_guest_image[of partial_store "LOG (Info_kernel 0x1000 0x10) ?s1"] by simp
  have y: "sym_insert ?c ''nt'' ?kern (replicate 16 0x4D) = Some partial_store"
    by (simp add: bootstrap_guest_def)
  have m: "symbol_at partial_store 1 = None"
    by (simp add: g_symbol_offsets_def partial_store_def)
  have "(1::nat) < SYMBOL_OFFSET_COUNT" by (simp add: SYMBOL_OFFSET_COUNT_def)
  with m have miss: "(\<exists>i<SYMBOL_OFFSET_COUNT. symbol_at partial_store i = None)
             \<or> (\<exists>i<MEMBER_OFFSET_COUNT. member_at partial_store i = None)"
    by blast
  from make_nt_all_or_nothing [of ?c fresh_nt st0] l k b y miss
  have "make_nt ?c fresh_nt st0 =
          Some (None, ?s2\<lparr>logs := logs ?s2
                @ map symbol_missing (filter (\<lambda>i. symbol_at partial_store i = None) [0..<SYMBOL_OFFSET_COUNT])
                @ map member_missing (filter (\<lambda>i. member_at partial_store i = None) [0..<MEMBER_OFFSET_COUNT])\<rparr>)"
    by blast
  then have "make_nt ?c fresh_nt st0 =
       Some (None,
         \<lparr>cur = None, reads = [(0x1000, 4096), (0x1000, 16)],
          logs = [Info_kernel 0x1000 0x10,
                  Unable_to_read_symbol_offset ''nt'' ''PsActiveProcessHead'',
                  Unable_to_read_member_offset ''nt'' ''_EPROCESS'' ''VadRoot'',
                  Unable_to_read_member_offset ''nt'' ''_PEB'' ''Ldr'']\<rparr>)"
    by (simp only: partial_store_symbols partial_store_members) (simp add: st0_def LOG_def)
  with l m show ?thesis by blast
qed

text \<open>The scenario of the specification: kernel at \<open>K = 0x1000\<close>, register \<open>K + 0x200\<close>. With
  \<open>KiSystemCall64\<close> resolved to \<open>K + 0x200\<close> the bootstrap succeeds; resolved to \<open>K + 0x300\<close>
  it fails with the PDB-mismatch diagnostic.\<close>

theorem setup_checks_syscall_entry_witness:
  "(\<exists>nt'. OsNt_setup (bootstrap_guest (full_store 0x1200)) fresh_nt st0 =
        Some (True, nt',
          \<lparr>cur = None, reads = [(0x1000, 4096), (0x1000, 16)],
           logs = [Info_kernel 0x1000 0x10]\<rparr>)
      \<and> symbols nt' KiSystemCall64 = 0x1200)
   \<and> (\<exists>nt'. OsNt_setup (bootstrap_guest (full_store 0x1300)) fresh_nt st0 =
        Some (False, nt',
          \<lparr>cur = None, reads = [(0x1000, 4096), (0x1000, 16)],
           logs = [Info_kernel 0x1000 0x10, PDB_mismatch 0x1200 0x1300]\<rparr>)
      \<and> symbols nt' KiSystemCall64 = 0x1300)"
proof -
  let ?kern = "\<lparr>span_addr = 0x1000, span_size = 0x10\<rparr> :: span_t"
  let ?s1 = "st0\<lparr>reads := reads st0 @ [(0x1000, 4096)]\<rparr>"
  let ?s2 = "(LOG (Info_kernel 0x1000 0x10) ?s1)\<lparr>reads := reads (LOG (Info_kernel 0x1000 0x10) ?s1) @ [(0x1000, 16)]\<rparr>"
  have l: "regs_read (bootstrap_guest (full_store a)) MSR_LSTAR = Some 0x1200" for a
    by (simp add: bootstrap_guest_def)
  have k: "find_kernel (bootstrap_guest (full_store a)) 0x1200 st0 = Some (Some ?kern, ?s1)" for a
    by (rule bootstrap_guest_kernel)
  have b: "read (bootstrap_guest (full_store a)) (LOG (Info_kernel (span_addr ?kern) (span_size ?kern)) ?s1)
             (span_addr ?kern) (unat (span_size ?kern)) = (Some (replicate 16 0x4D), ?s2)" for a
    using bootstrap_guest_image[of "full_store a" "LOG (Info_kernel 0x1000 0x10) ?s1"] by simp
  have y: "sym_insert (bootstrap_guest (full_store a)) ''nt'' ?kern (replicate 16 0x4D) = Some (full_store a)" for a
    by (simp add: bootstrap_guest_def)
  have sy: "\<forall>i<SYMBOL_OFFSET_COUNT. symbol_at (full_store a) i \<noteq> None" for a
    by (simp add: full_store_def)
  have me: "\<forall>i<MEMBER_OFFSET_COUNT. member_at (full_store a) i \<noteq> None" for a
    by (simp add: full_store_def)
  have ks: "symbol (full_store a) ''nt'' ''KiSystemCall64'' = Some a" for a
    by (simp add: full_store_def)
  from setup_checks_syscall_entry
         [OF l[of "0x1200"] k[of "0x1200"] b[of "0x1200"] y[of "0x1200"] sy[of "0x1200"]
             me[of "0x1200"] ks[of "0x1200"], where nt = fresh_nt]
       setup_checks_syscall_entry
         [OF l[of "0x1300"] k[of "0x1300"] b[of "0x1300"] y[of "0x1300"] sy[of "0x1300"]
             me[of "0x1300"] ks[of "0x1300"], where nt = fresh_nt]
  show ?thesis
    by (simp add: st0_def LOG_def)
qed

lemma walk_offsets_simps:
  "members walk_offsets EPROCESS_ActiveProcessLinks = 0x40"
  "members walk_offsets EPROCESS_Pcb = 0"
  "members walk_offsets KPROCESS_DirectoryTableBase = 0x28"
  "symbols walk_offsets PsActiveProcessHead = 0x1000"
  by (simp_all add: walk_offsets_def member_offset_e_defs symbol_offset_e_defs)

lemma broken_list_reads:
  "read_bytes (mem broken_list_guest sel) 0x1000 8 = Some [0x00,0x20,0,0,0,0,0,0]"
  "read_bytes (mem broken_list_guest sel) 0x1FE8 8 = Some [0x00,0xB0,0x1A,0,0,0,0,0]"
  "read_bytes (mem broken_list_guest sel) 0x2000 8 = None"
  by (simp_all add: broken_list_guest_def guest_def read_bytes_numeral)

lemma le64_values:
  "read_le64 [0x00,0x20,0,0,0,0,0,0] = 0x2000"
  "read_le64 [0x00,0x30,0,0,0,0,0,0] = 0x3000"
  "read_le64 [0x00,0x10,0,0,0,0,0,0] = 0x1000"
  "read_le64 [0x00,0xB0,0x1A,0,0,0,0,0] = 0x1AB000"
  by (simp_all add: read_le64_def)

text \<open>Claim C4 on the code: in a walk of \<^verbatim>\<open>list_procs\<close> where the read of a forward link
  fails, the loop condition lets the empty optional through and the body dereferences it.
  Here the head and the first process are readable and the first process's link is not.\<close>

theorem list_procs_failed_link_read:
  "fst (read_ptr broken_list_guest st0 0x2000) = None
   \<and> list_procs broken_list_guest walk_offsets (\<lambda>p. WALK_NEXT) st0
       = Some (Inl Empty_optional_dereferenced)"
  by (simp add: list_procs_def list_procs_loop.simps read_ptr_eq walk_offsets_simps
        broken_list_reads le64_values st0_def)

lemma skip_guest_reads:
  "read_bytes (mem skip_guest sel) 0x1000 8 = Some [0x00,0x20,0,0,0,0,0,0]"
  "read_bytes (mem skip_guest sel) 0x2000 8 = Some [0x00,0x30,0,0,0,0,0,0]"
  "read_bytes (mem skip_guest sel) 0x3000 8 = Some [0x00,0x10,0,0,0,0,0,0]"
  "read_bytes (mem skip_guest sel) 0x1FE8 8 = None"
  "read_bytes (mem skip_guest sel) 0x2FE8 8 = Some [0x00,0xB0,0x1A,0,0,0,0,0]"
  by (simp_all add: skip_guest_def guest_def read_bytes_numeral)

text \<open>Claim C5. In the loop of \<^verbatim>\<open>list_procs\<close>, a node other than the head whose page-table
  root cannot be read is logged and not visited, and the walk goes on from that node's
  forward link. Whenever \<^verbatim>\<open>list_procs\<close> returns, it returns true. When the head's link
  points back to the head, it returns true with no process visited, having issued only the
  read of the head.\<close>

theorem list_procs_skips_unreadable:
  "(\<forall>l. l \<noteq> head
        \<and> read_bytes (mem c (cur s)) (l - members nt EPROCESS_ActiveProcessLinks
               + members nt EPROCESS_Pcb + members nt KPROCESS_DirectoryTableBase) 8 = None
      \<longrightarrow> list_procs_loop c nt on_process head (Some l) visited s =
          list_procs_loop c nt on_process head
            (map_option read_le64 (read_bytes (mem c (cur s)) l 8)) visited
            (s\<lparr>reads := reads s @ [(l - members nt EPROCESS_ActiveProcessLinks
                    + members nt EPROCESS_Pcb + members nt KPROCESS_DirectoryTableBase, 8), (l, 8)],
               logs := logs s @ [Unable_to_read_DirectoryTableBase_from
                                    (l - members nt EPROCESS_ActiveProcessLinks)]\<rparr>))
   \<and> (\<forall>r ps s'. list_procs c nt on_process s = Some (Inr (r, ps, s')) \<longrightarrow> r = True)
   \<and> (map_option read_le64 (read_bytes (mem c (cur s)) (symbols nt PsActiveProcessHead) 8)
         = Some (symbols nt PsActiveProcessHead)
      \<longrightarrow> list_procs c nt on_process s =
            Some (Inr (True, [], s\<lparr>reads := reads s @ [(symbols nt PsActiveProcessHead, 8)]\<rparr>)))"
proof (intro conjI allI impI)
  have st: "s\<lparr>logs := A, reads := B\<rparr> = s\<lparr>reads := B, logs := A\<rparr>" for A B
    by simp
  fix l
  assume "l \<noteq> head
        \<and> read_bytes (mem c (cur s)) (l - members nt EPROCESS_ActiveProcessLinks
               + members nt EPROCESS_Pcb + members nt KPROCESS_DirectoryTableBase) 8 = None"
  then show "list_procs_loop c nt on_process head (Some l) visited s =
          list_procs_loop c nt on_process head
            (map_option read_le64 (read_bytes (mem c (cur s)) l 8)) visited
            (s\<lparr>reads := reads s @ [(l - members nt EPROCESS_ActiveProcessLinks
                    + members nt EPROCESS_Pcb + members nt KPROCESS_DirectoryTableBase, 8), (l, 8)],
               logs := logs s @ [Unable_to_read_DirectoryTableBase_from
                                    (l - members nt EPROCESS_ActiveProcessLinks)]\<rparr>)"
    by (subst list_procs_loop.simps) (simp add: read_ptr_eq LOG_def st)
next
  fix r ps s'
  assume "list_procs c nt on_process s = Some (Inr (r, ps, s'))"
  then show "r = True"
    by (auto simp: list_procs_def split: prod.splits option.splits sum.splits)
next
  assume "map_option read_le64 (read_bytes (mem c (cur s)) (symbols nt PsActiveProcessHead) 8)
         = Some (symbols nt PsActiveProcessHead)"
  then show "list_procs c nt on_process s =
            Some (Inr (True, [], s\<lparr>reads := reads s @ [(symbols nt PsActiveProcessHead, 8)]\<rparr>))"
    by (simp add: list_procs_def read_ptr_eq list_procs_loop.simps)
qed

text \<open>On the list of two, the first process is logged and skipped and the second is
  visited; on a head that links to itself no process is visited.\<close>

theorem list_procs_skips_unreadable_witness:
  "list_procs skip_guest walk_offsets (\<lambda>p. WALK_NEXT) st0 =
     Some (Inr (True, [\<lparr>proc_id = 0x2FC0, proc_dtb = 0x1AB000\<rparr>],
       \<lparr>cur = None,
        reads = [(0x1000, 8), (0x1FE8, 8), (0x2000, 8), (0x2FE8, 8), (0x3000, 8)],
        logs = [Unable_to_read_DirectoryTableBase_from 0x1FC0]\<rparr>))
   \<and> list_procs empty_list_guest walk_offsets (\<lambda>p. WALK_NEXT) st0 =
     Some (Inr (True, [], \<lparr>cur = None, reads = [(0x1000, 8)], logs = []\<rparr>))"
proof -
  let ?s1 = "st0\<lparr>reads := reads st0 @ [(0x1000, 8)]\<rparr>"
  let ?s2 = "?s1\<lparr>reads := reads ?s1 @ [(0x1FE8, 8), (0x2000, 8)],
                 logs := logs ?s1 @ [Unable_to_read_DirectoryTableBase_from 0x1FC0]\<rparr>"
  have far: "(0x2000 :: u64) \<noteq> 0x1000" by simp
  have unreadable: "read_bytes (mem skip_guest (cur ?s1))
      (0x2000 - members walk_offsets EPROCESS_ActiveProcessLinks
         + members walk_offsets EPROCESS_Pcb + members walk_offsets KPROCESS_DirectoryTableBase) 8
      = None"
    by (simp add: walk_offsets_simps skip_guest_reads)
  from list_procs_skips_unreadable
         [of "0x1000" skip_guest ?s1 walk_offsets "\<lambda>p. WALK_NEXT" "[]"] far unreadable
  have "list_procs_loop skip_guest walk_offsets (\<lambda>p. WALK_NEXT) 0x1000 (Some 0x2000) [] ?s1 =
        list_procs_loop skip_guest walk_offsets (\<lambda>p. WALK_NEXT) 0x1000
          (map_option read_le64 (read_bytes (mem skip_guest (cur ?s1)) 0x2000 8)) []
          (?s1\<lparr>reads := reads ?s1 @ [(0x2000 - members walk_offsets EPROCESS_ActiveProcessLinks
                    + members walk_offsets EPROCESS_Pcb
                    + members walk_offsets KPROCESS_DirectoryTableBase, 8), (0x2000, 8)],
               logs := logs ?s1 @ [Unable_to_read_DirectoryTableBase_from
                          (0x2000 - members walk_offsets EPROCESS_ActiveProcessLinks)]\<rparr>)"
    by blast
  then have skip: "list_procs_loop skip_guest walk_offsets (\<lambda>p. WALK_NEXT) 0x1000 (Some 0x2000) [] ?s1 =
        list_procs_loop skip_guest walk_offsets (\<lambda>p. WALK_NEXT) 0x1000 (Some 0x3000) [] ?s2"
    by (simp add: walk_offsets_simps skip_guest_reads le64_values)
  have rest: "list_procs_loop skip_guest walk_offsets (\<lambda>p. WALK_NEXT) 0x1000 (Some 0x3000) [] ?s2 =
        Some (Inr ([\<lparr>proc_id = 0x2FC0, proc_dtb = 0x1AB000\<rparr>],
          \<lparr>cur = None,
           reads = [(0x1000, 8), (0x1FE8, 8), (0x2000, 8), (0x2FE8, 8), (0x3000, 8)],
           logs = [Unable_to_read_DirectoryTableBase_from 0x1FC0]\<rparr>))"
    by (simp add: list_procs_loop.simps read_ptr_eq walk_offsets_simps skip_guest_reads
          le64_values st0_def)
  have first: "list_procs skip_guest walk_offsets (\<lambda>p. WALK_NEXT) st0 =
     Some (Inr (True, [\<lparr>proc_id = 0x2FC0, proc_dtb = 0x1AB000\<rparr>],
       \<lparr>cur = None,
        reads = [(0x1000, 8), (0x1FE8, 8), (0x2000, 8), (0x2FE8, 8), (0x3000, 8)],
        logs = [Unable_to_read_DirectoryTableBase_from 0x1FC0]\<rparr>))"
    unfolding list_procs_def using skip rest
    by (simp add: read_ptr_eq walk_offsets_simps skip_guest_reads le64_values)
  have self: "map_option read_le64 (read_bytes (mem empty_list_guest (cur st0))
                (symbols walk_offsets PsActiveProcessHead) 8)
              = Some (symbols walk_offsets PsActiveProcessHead)"
    by (simp add: walk_offsets_simps empty_list_guest_def guest_def read_bytes_numeral le64_values)
  from list_procs_skips_unreadable
         [of "0x1000" empty_list_guest st0 walk_offsets "\<lambda>p. WALK_NEXT" "[]"] self
  have "list_procs empty_list_guest walk_offsets (\<lambda>p. WALK_NEXT) st0 =
          Some (Inr (True, [], st0\<lparr>reads := reads st0 @ [(symbols walk_offsets PsActiveProcessHead, 8)]\<rparr>))"
    by blast
  then have second: "list_procs empty_list_guest walk_offsets (\<lambda>p. WALK_NEXT) st0 =
     Some (Inr (True, [], \<lparr>cur = None, reads = [(0x1000, 8)], logs = []\<rparr>))"
    by (simp add: walk_offsets_simps st0_def)
  from first second show ?thesis by blast
qed

lemma and_not_mask_52: "(a::u64) AND NOT (mask 52) = push_bit 52 (drop_bit 52 a)"
  by (rule bit_word_eqI) (auto simp: bit_simps)

lemma top12: "(a::u64) AND 0xFFF0000000000000 = push_bit 52 (drop_bit 5 (drop_bit 47 a))"
proof -
  have "(0xFFF0000000000000 :: u64) = NOT (mask 52)" by (simp add: mask_eq_exp_minus_1)
  then have "a AND 0xFFF0000000000000 = push_bit 52 (drop_bit 52 a)"
    by (simp only: and_not_mask_52)
  then show ?thesis by simp
qed

lemma canonical_top_bits:
  assumes "spec_canonical a"
  shows "(a AND 0xFFF0000000000000 \<noteq> 0) = spec_kernel_space a"
proof (cases "drop_bit 47 a = 0")
  case True
  then have "a AND 0xFFF0000000000000 = 0" by (simp only: top12) simp
  with True show ?thesis by (simp add: spec_kernel_space_def)
next
  case False
  with assms have k: "drop_bit 47 a = 0x1FFFF" by (simp add: spec_canonical_def)
  have "a AND 0xFFF0000000000000 = push_bit 52 (drop_bit 5 (0x1FFFF :: u64))"
    by (simp only: top12 k)
  also have "\<dots> = 0xFFF0000000000000" by simp
  finally show ?thesis using k by (simp add: spec_kernel_space_def)
qed

text \<open>Claim C6. \<^verbatim>\<open>read_gs_base\<close> returns the value of GS\_BASE when that canonical value
  is a kernel-space one and the value of KERNEL\_GS\_BASE otherwise, and is absent when the
  register it needs cannot be read. \<^verbatim>\<open>get_current_proc\<close> returns a handle exactly when the
  base and the three pointer reads (current thread, owning process, page-table root) all
  succeed, and the handle is then built from the values read; in every other case the
  result is absent.\<close>

theorem get_current_proc_all_or_nothing:
  "(\<forall>gs. regs_read c MSR_GS_BASE = Some gs \<and> spec_canonical gs \<and> spec_kernel_space gs
        \<longrightarrow> read_gs_base c = Some gs)
   \<and> (\<forall>gs. regs_read c MSR_GS_BASE = Some gs \<and> spec_canonical gs \<and> \<not> spec_kernel_space gs
        \<longrightarrow> read_gs_base c = regs_read c MSR_KERNEL_GS_BASE)
   \<and> (regs_read c MSR_GS_BASE = None \<longrightarrow> read_gs_base c = None)
   \<and> (\<forall>p. fst (get_current_proc c nt s) = Some p \<longleftrightarrow>
         (\<exists>gs current_thread kproc dtb.
            read_gs_base c = Some gs
          \<and> map_option read_le64 (read_bytes (mem c (cur s))
                (gs + members nt KPCR_Prcb + members nt KPRCB_CurrentThread) 8) = Some current_thread
          \<and> map_option read_le64 (read_bytes (mem c (cur s))
                (current_thread + members nt KTHREAD_Process) 8) = Some kproc
          \<and> map_option read_le64 (read_bytes (mem c (cur s))
                (kproc + members nt KPROCESS_DirectoryTableBase) 8) = Some dtb
          \<and> p = \<lparr>proc_id = kproc - members nt EPROCESS_Pcb, proc_dtb = dtb\<rparr>))"
proof (intro conjI allI impI)
  fix gs
  assume "regs_read c MSR_GS_BASE = Some gs \<and> spec_canonical gs \<and> spec_kernel_space gs"
  then show "read_gs_base c = Some gs"
    using canonical_top_bits[of gs] by (simp add: read_gs_base_def)
next
  fix gs
  assume "regs_read c MSR_GS_BASE = Some gs \<and> spec_canonical gs \<and> \<not> spec_kernel_space gs"
  then show "read_gs_base c = regs_read c MSR_KERNEL_GS_BASE"
    using canonical_top_bits[of gs] by (simp add: read_gs_base_def split: option.splits)
next
  assume "regs_read c MSR_GS_BASE = None"
  then show "read_gs_base c = None" by (simp add: read_gs_base_def)
next
  fix p
  show "fst (get_current_proc c nt s) = Some p \<longleftrightarrow>
         (\<exists>gs current_thread kproc dtb.
            read_gs_base c = Some gs
          \<and> map_option read_le64 (read_bytes (mem c (cur s))
                (gs + members nt KPCR_Prcb + members nt KPRCB_CurrentThread) 8) = Some current_thread
          \<and> map_option read_le64 (read_bytes (mem c (cur s))
                (current_thread + members nt KTHREAD_Process) 8) = Some kproc
          \<and> map_option read_le64 (read_bytes (mem c (cur s))
                (kproc + members nt KPROCESS_DirectoryTableBase) 8) = Some dtb
          \<and> p = \<lparr>proc_id = kproc - members nt EPROCESS_Pcb, proc_dtb = dtb\<rparr>)"
    by (auto simp: get_current_proc_def read_ptr_eq split: option.splits)
qed

text \<open>A guest interrupted in user mode: GS\_BASE holds a user address, KERNEL\_GS\_BASE the
  control region, and the chain control region, thread, process, page-table root is
  mapped.\<close>

theorem get_current_proc_all_or_nothing_witness:
  "regs_read user_mode_guest MSR_GS_BASE = Some 0x7FF000
   \<and> spec_canonical 0x7FF000 \<and> \<not> spec_kernel_space 0x7FF000
   \<and> regs_read user_mode_guest MSR_KERNEL_GS_BASE = Some 0xFFFFF80000001000
   \<and> read_gs_base user_mode_guest = Some 0xFFFFF80000001000
   \<and> fst (get_current_proc user_mode_guest thread_offsets st0) =
         Some \<lparr>proc_id = 0xFFFFFA8000005000, proc_dtb = 0x1AB000\<rparr>"
proof -
  note T = get_current_proc_all_or_nothing [of user_mode_guest thread_offsets st0]
  have gs: "regs_read user_mode_guest MSR_GS_BASE = Some 0x7FF000"
    and kgs: "regs_read user_mode_guest MSR_KERNEL_GS_BASE = Some 0xFFFFF80000001000"
    by (simp_all add: user_mode_guest_def guest_def)
  have can: "spec_canonical 0x7FF000" and user: "\<not> spec_kernel_space 0x7FF000"
    by (simp_all add: spec_canonical_def spec_kernel_space_def drop_bit_eq_div)
  from T gs can user have "read_gs_base user_mode_guest = regs_read user_mode_guest MSR_KERNEL_GS_BASE"
    by blast
  with kgs have base: "read_gs_base user_mode_guest = Some 0xFFFFF80000001000" by simp
  have r1: "map_option read_le64 (read_bytes (mem user_mode_guest (cur st0))
              (0xFFFFF80000001000 + members thread_offsets KPCR_Prcb
                 + members thread_offsets KPRCB_CurrentThread) 8) = Some 0xFFFFFA8000003000"
    by (simp add: user_mode_guest_def guest_def thread_offsets_def member_offset_e_defs
          read_bytes_numeral read_le64_def)
  have r2: "map_option read_le64 (read_bytes (mem user_mode_guest (cur st0))
              (0xFFFFFA8000003000 + members thread_offsets KTHREAD_Process) 8)
              = Some 0xFFFFFA8000005010"
    by (simp add: user_mode_guest_def guest_def thread_offsets_def member_offset_e_defs
          read_bytes_numeral read_le64_def)
  have r3: "map_option read_le64 (read_bytes (mem user_mode_guest (cur st0))
              (0xFFFFFA8000005010 + members thread_offsets KPROCESS_DirectoryTableBase) 8)
              = Some 0x1AB000"
    by (simp add: user_mode_guest_def guest_def thread_offsets_def member_offset_e_defs
          read_bytes_numeral read_le64_def)
  have p: "\<lparr>proc_id = 0xFFFFFA8000005000, proc_dtb = 0x1AB000\<rparr>
           = \<lparr>proc_id = 0xFFFFFA8000005010 - members thread_offsets EPROCESS_Pcb,
              proc_dtb = 0x1AB000\<rparr>"
    by (simp add: thread_offsets_def member_offset_e_defs)
  from T base r1 r2 r3 p
  have "fst (get_current_proc user_mode_guest thread_offsets st0) =
         Some \<lparr>proc_id = 0xFFFFFA8000005000, proc_dtb = 0x1AB000\<rparr>"
    by blast
  with gs kgs can user base show ?thesis by blast
qed

lemma read_bytes_length: "read_bytes m a n = Some bs \<Longrightarrow> length bs = n"
  by (induction n arbitrary: a bs) (auto split: option.splits)


















lemma user_proc_id: "proc_id user_proc = 0x5000"
  by (simp add: user_proc_def)

lemma module_offsets_simps:
  "members module_offsets EPROCESS_Peb = 0x3F8"
  "members module_offsets PEB_Ldr = 0x18"
  "members module_offsets PEB_LDR_DATA_InLoadOrderModuleList = 0x10"
  "members module_offsets LDR_DATA_TABLE_ENTRY_InLoadOrderLinks = 0"
  by (simp_all add: module_offsets_def member_offset_e_defs)

lemma module_guest_reads:
  "read_bytes (mem (module_guest w) sel) 0x53F8 8 = Some [0x00,0x70,0,0,0,0,0,0]"
  "read_bytes (mem (module_guest True) (Some user_proc)) 0x7018 8 = Some [0x00,0x80,0,0,0,0,0,0]"
  "read_bytes (mem (module_guest False) (Some user_proc)) 0x7018 8 = None"
  "read_bytes (mem (module_guest True) (Some user_proc)) 0x8010 8 = Some [0x00,0x90,0,0,0,0,0,0]"
  "read_bytes (mem (module_guest True) (Some user_proc)) 0x9000 8 = Some [0x00,0xA0,0,0,0,0,0,0]"
  "read_bytes (mem (module_guest True) (Some user_proc)) 0xA000 8 = Some [0x10,0x80,0,0,0,0,0,0]"
  by (simp_all add: module_guest_def guest_def read_bytes_numeral)

lemma module_le64_values:
  "read_le64 [0x00,0x70,0,0,0,0,0,0] = 0x7000"
  "read_le64 [0x00,0x80,0,0,0,0,0,0] = 0x8000"
  "read_le64 [0x00,0x90,0,0,0,0,0,0] = 0x9000"
  "read_le64 [0x00,0xA0,0,0,0,0,0,0] = 0xA000"
  "read_le64 [0x10,0x80,0,0,0,0,0,0] = 0x8010"
  by (simp_all add: read_le64_def)

text \<open>Claim C8. Whenever \<^verbatim>\<open>list_mods\<close> returns (the PEB pointer unreadable or null, the
  loader pointer unreadable, the visitor stopping the walk, or the walk reaching its end),
  and after every call of \<^verbatim>\<open>get_mod_name\<close> and \<^verbatim>\<open>get_mod_span\<close>, the backend's address-space
  selection is the one it was before the call.\<close>

theorem address_space_switch_released:
  "(\<forall>r ms s'. list_mods c nt proc on_mod s = Some (r, ms, s') \<longrightarrow> cur s' = cur s)
   \<and> cur (snd (get_mod_name c nt proc md s)) = cur s
   \<and> cur (snd (get_mod_span c nt proc md s)) = cur s"
proof (intro conjI allI impI)
  fix r ms s'
  assume a: "list_mods c nt proc on_mod s = Some (r, ms, s')"
  show "cur s' = cur s"
  proof (cases "map_option read_le64 (read_bytes (mem c (cur s)) (proc_id proc + members nt EPROCESS_Peb) 8)")
    case None
    with a show ?thesis by (auto simp: list_mods_def read_ptr_eq LOG_def)
  next
    case (Some peb)
    note peb = this
    show ?thesis
    proof (cases "peb = 0")
      case True
      with a peb show ?thesis by (auto simp: list_mods_def read_ptr_eq)
    next
      case False
      with a peb show ?thesis
        by (auto simp: list_mods_def read_ptr_eq switch_process_def release_def LOG_def
              split: option.splits)
    qed
  qed
next
  show "cur (snd (get_mod_name c nt proc md s)) = cur s"
    by (simp add: get_mod_name_def switch_process_def release_def split: prod.splits)
next
  show "cur (snd (get_mod_span c nt proc md s)) = cur s"
    by (simp add: get_mod_span_def switch_process_def release_def read_ptr_eq split: option.splits)
qed

text \<open>The three ways out of \<^verbatim>\<open>list_mods\<close> once the switch is made, on the guest with two
  modules: the walk reaches the head again, the visitor stops at the first module, and the
  loader pointer cannot be read. The selection is back to what it was each time.\<close>

theorem address_space_switch_released_witness:
  "(\<exists>s'. list_mods (module_guest True) module_offsets user_proc (\<lambda>m. WALK_NEXT) st0
            = Some (True, [0x9000, 0xA000], s') \<and> cur s' = cur st0)
   \<and> (\<exists>s'. list_mods (module_guest True) module_offsets user_proc (\<lambda>m. WALK_STOP) st0
            = Some (True, [0x9000], s') \<and> cur s' = cur st0)
   \<and> (\<exists>s'. list_mods (module_guest False) module_offsets user_proc (\<lambda>m. WALK_NEXT) st0
            = Some (False, [], s') \<and> cur s' = cur st0 \<and> logs s' = [Unable_to_read_Ldr])"
proof -
  have full: "\<exists>s'. list_mods (module_guest True) module_offsets user_proc (\<lambda>m. WALK_NEXT) st0
            = Some (True, [0x9000, 0xA000], s')"
    by (simp add: list_mods_def list_mods_loop.simps read_ptr_eq switch_process_def
          module_offsets_simps module_guest_reads module_le64_values st0_def user_proc_id)
  have stop: "\<exists>s'. list_mods (module_guest True) module_offsets user_proc (\<lambda>m. WALK_STOP) st0
            = Some (True, [0x9000], s')"
    by (simp add: list_mods_def list_mods_loop.simps read_ptr_eq switch_process_def
          module_offsets_simps module_guest_reads module_le64_values st0_def user_proc_id)
  have fail: "\<exists>s'. list_mods (module_guest False) module_offsets user_proc (\<lambda>m. WALK_NEXT) st0
            = Some (False, [], s') \<and> logs s' = [Unable_to_read_Ldr]"
    by (simp add: list_mods_def list_mods_loop.simps read_ptr_eq switch_process_def
          release_def LOG_def module_offsets_simps module_guest_reads module_le64_values st0_def user_proc_id)
  from full address_space_switch_released
         [of "module_guest True" module_offsets user_proc "\<lambda>m. WALK_NEXT" st0]
  have 1: "\<exists>s'. list_mods (module_guest True) module_offsets user_proc (\<lambda>m. WALK_NEXT) st0
            = Some (True, [0x9000, 0xA000], s') \<and> cur s' = cur st0"
    by blast
  from stop address_space_switch_released
         [of "module_guest True" module_offsets user_proc "\<lambda>m. WALK_STOP" st0]
  have 2: "\<exists>s'. list_mods (module_guest True) module_offsets user_proc (\<lambda>m. WALK_STOP) st0
            = Some (True, [0x9000], s') \<and> cur s' = cur st0"
    by blast
  from fail address_space_switch_released
         [of "module_guest False" module_offsets user_proc "\<lambda>m. WALK_NEXT" st0]
  have 3: "\<exists>s'. list_mods (module_guest False) module_offsets user_proc (\<lambda>m. WALK_NEXT) st0
            = Some (False, [], s') \<and> cur s' = cur st0 \<and> logs s' = [Unable_to_read_Ldr]"
    by blast
  from 1 2 3 show ?thesis by blast
qed

text \<open>Claim C9. When the 16-byte descriptor is read and its decoded \<open>length\<close> exceeds its
  decoded \<open>max_length\<close>, \<^verbatim>\<open>read_unicode_string\<close> returns an absent result, logs the
  corruption, and the only read it has issued is that of the descriptor: the string buffer
  is not read at all.\<close>

theorem read_unicode_string_rejects_corrupt:
  assumes "read_bytes (mem c (cur s)) a 16 = Some us"
    and "read_le16 us > read_le16 (drop 2 us)"
  shows "read_unicode_string c s a =
           (None, s\<lparr>reads := reads s @ [(a, 16)], logs := logs s @ [Corrupted_UNICODE_STRING]\<rparr>)"
  using assms by (simp add: read_unicode_string_def read_def LOG_def)

text \<open>A descriptor with \<open>length = 4\<close> and \<open>max_length = 2\<close> whose buffer at \<open>0x2000\<close> is
  mapped: the buffer is left unread.\<close>

theorem read_unicode_string_rejects_corrupt_witness:
  "read_bytes (mem corrupt_string_guest (cur st0)) 0x1000 16
      = Some [4,0, 2,0, 0,0,0,0, 0x00,0x20,0,0,0,0,0,0]
   \<and> read_le16 [4,0, 2,0, 0,0,0,0, 0x00,0x20,0,0,0,0,0,0] = 4
   \<and> read_le16 (drop 2 [4,0, 2,0, 0,0,0,0, 0x00,0x20,0,0,0,0,0,0]) = 2
   \<and> read_le64 (drop 8 [4,0, 2,0, 0,0,0,0, 0x00,0x20,0,0,0,0,0,0]) = 0x2000
   \<and> read_bytes (mem corrupt_string_guest (cur st0)) 0x2000 4 = Some [0x41,0,0x42,0]
   \<and> read_unicode_string corrupt_string_guest st0 0x1000 =
         (None, \<lparr>cur = None, reads = [(0x1000, 16)], logs = [Corrupted_UNICODE_STRING]\<rparr>)"
proof -
  let ?us = "[4,0, 2,0, 0,0,0,0, 0x00,0x20,0,0,0,0,0,0] :: u8 list"
  have rd: "read_bytes (mem corrupt_string_guest (cur st0)) 0x1000 16 = Some ?us"
    by (simp add: corrupt_string_guest_def guest_def read_bytes_numeral)
  have l: "read_le16 ?us = 4" and m: "read_le16 (drop 2 ?us) = 2"
    and b: "read_le64 (drop 8 ?us) = 0x2000"
    by (simp_all add: read_le16_def read_le64_def)
  have gt: "read_le16 ?us > read_le16 (drop 2 ?us)" by (simp add: read_le16_def)
  have buf: "read_bytes (mem corrupt_string_guest (cur st0)) 0x2000 4 = Some [0x41,0,0x42,0]"
    by (simp add: corrupt_string_guest_def guest_def read_bytes_numeral)
  show ?thesis
    using read_unicode_string_rejects_corrupt [OF rd gt] rd l m b buf
    by (simp add: st0_def)
qed

lemma read_bytes_take:
  "read_bytes m a n = Some bs \<Longrightarrow> k \<le> n \<Longrightarrow> read_bytes m a k = Some (take k bs)"
proof (induction n arbitrary: a bs k)
  case 0
  then show ?case by simp
next
  case (Suc n)
  show ?case
  proof (cases k)
    case 0
    then show ?thesis by simp
  next
    case (Suc k')
    with Suc.prems Suc.IH[of "a + 1" _ k'] show ?thesis
      by (auto split: option.splits)
  qed
qed

lemma le_nat_bound: "le_nat bs < 256 ^ length bs"
proof (induction bs)
  case Nil
  then show ?case by simp
next
  case (Cons b bs)
  have "unat b < 256" using unsigned_less[of b] by simp
  with Cons show ?case by simp
qed

lemma le_nat_append: "le_nat (xs @ ys) = le_nat xs + 256 ^ length xs * le_nat ys"
  by (induction xs) (simp_all add: algebra_simps)

lemma le_nat_zero_iff: "le_nat bs = 0 \<longleftrightarrow> bs = replicate (length bs) 0"
  by (induction bs) (auto simp: unsigned_eq_0_iff)

lemma unat_read_le64: "length bs = 8 \<Longrightarrow> unat (read_le64 bs) = le_nat bs"
  using le_nat_bound[of bs] by (simp add: read_le64_def unat_of_nat)

lemma unat_read_le32: "unat (read_le32 bs) = le_nat (take 4 bs)"
proof -
  have "le_nat (take 4 bs) < 256 ^ length (take 4 bs)" by (rule le_nat_bound)
  also have "\<dots> \<le> 256 ^ 4" by (intro power_increasing) simp_all
  finally show ?thesis by (simp add: read_le32_def unat_of_nat)
qed

lemma unat_ucast_32_64: "unat (ucast (x::u32) :: u64) = unat x"
proof -
  have "unat x < 2 ^ 32" using unsigned_less[of x] by simp
  also have "(2::nat) ^ 32 \<le> 2 ^ 64" by simp
  finally have "take_bit 64 (unat x) = unat x" by (simp add: take_bit_nat_eq_self)
  then show ?thesis by (simp add: unsigned_ucast_eq)
qed

lemma le64_eq_le32_iff:
  assumes "length sb = 8"
  shows "read_le64 sb = ucast (read_le32 sb) \<longleftrightarrow> drop 4 sb = [0, 0, 0, 0]"
proof -
  have split: "le_nat sb = le_nat (take 4 sb) + 256 ^ 4 * le_nat (drop 4 sb)"
    using le_nat_append[of "take 4 sb" "drop 4 sb"] assms by simp
  have "read_le64 sb = ucast (read_le32 sb) \<longleftrightarrow> unat (read_le64 sb) = unat (ucast (read_le32 sb) :: u64)"
    by (simp add: word_unat_eq_iff)
  also have "\<dots> \<longleftrightarrow> le_nat sb = le_nat (take 4 sb)"
    by (simp add: unat_read_le64[OF assms] unat_read_le32 unat_ucast_32_64)
  also have "\<dots> \<longleftrightarrow> le_nat (drop 4 sb) = 0"
    using split by simp
  also have "\<dots> \<longleftrightarrow> drop 4 sb = replicate 4 0"
    using assms by (simp add: le_nat_zero_iff)
  also have "replicate 4 0 = [0, 0, 0, (0::u8)]"
    by (simp add: numeral_eq_Suc)
  finally show ?thesis .
qed

text \<open>Claim C10. When both eight-byte reads succeed, \<^verbatim>\<open>get_mod_span\<close> returns the
  little-endian 64-bit values stored at the \<open>DllBase\<close> and \<open>SizeOfImage\<close> member offsets of
  the module entry, having read exactly those two ranges; the returned size equals the
  32-bit field stored in the first four bytes at the \<open>SizeOfImage\<close> offset exactly when the
  four bytes after that field are zero.\<close>

theorem get_mod_span_pointer_width:
  assumes "read_bytes (mem c (Some proc)) (md + members nt LDR_DATA_TABLE_ENTRY_DllBase) 8 = Some bb"
    and "read_bytes (mem c (Some proc)) (md + members nt LDR_DATA_TABLE_ENTRY_SizeOfImage) 8 = Some sb"
  shows "fst (get_mod_span c nt proc md s) =
           Some \<lparr>span_addr = read_le64 bb, span_size = read_le64 sb\<rparr>
       \<and> reads (snd (get_mod_span c nt proc md s)) =
           reads s @ [(md + members nt LDR_DATA_TABLE_ENTRY_DllBase, 8),
                      (md + members nt LDR_DATA_TABLE_ENTRY_SizeOfImage, 8)]
       \<and> read_bytes (mem c (Some proc)) (md + members nt LDR_DATA_TABLE_ENTRY_SizeOfImage) 4
           = Some (take 4 sb)
       \<and> (read_le64 sb = ucast (read_le32 (take 4 sb)) \<longleftrightarrow> drop 4 sb = [0, 0, 0, 0])"
proof -
  have len: "length sb = 8" using assms(2) by (rule read_bytes_length)
  have "read_le32 (take 4 sb) = read_le32 sb" by (simp add: read_le32_def)
  then have "read_le64 sb = ucast (read_le32 (take 4 sb)) \<longleftrightarrow> drop 4 sb = [0, 0, 0, 0]"
    using le64_eq_le32_iff[OF len] by simp
  moreover have "read_bytes (mem c (Some proc)) (md + members nt LDR_DATA_TABLE_ENTRY_SizeOfImage) 4
           = Some (take 4 sb)"
    using assms(2) by (rule read_bytes_take) simp
  moreover have "get_mod_span c nt proc md s =
      (Some \<lparr>span_addr = read_le64 bb, span_size = read_le64 sb\<rparr>,
       s\<lparr>cur := cur s, reads := reads s @ [(md + members nt LDR_DATA_TABLE_ENTRY_DllBase, 8),
                      (md + members nt LDR_DATA_TABLE_ENTRY_SizeOfImage, 8)]\<rparr>)"
    using assms
    by (simp add: get_mod_span_def switch_process_def release_def read_ptr_def read_def)
  ultimately show ?thesis by simp
qed

text \<open>A module entry whose 32-bit \<open>SizeOfImage\<close> is \<open>0x9000\<close> and is followed by the
  bytes \<open>34 12 00 00\<close>: the size returned is \<open>0x123400009000\<close>.\<close>

theorem get_mod_span_pointer_width_witness:
  "read_bytes (mem span_guest (Some proc1)) (0x5000 + members nt_offsets LDR_DATA_TABLE_ENTRY_DllBase) 8
     = Some [0,0,0x40,0,0,0,0,0]
   \<and> read_bytes (mem span_guest (Some proc1)) (0x5000 + members nt_offsets LDR_DATA_TABLE_ENTRY_SizeOfImage) 8
     = Some [0,0x90,0,0, 0x34,0x12,0,0]
   \<and> read_le32 [0,0x90,0,0] = 0x9000
   \<and> fst (get_mod_span span_guest nt_offsets proc1 0x5000 st0) =
         Some \<lparr>span_addr = 0x400000, span_size = 0x123400009000\<rparr>"
proof -
  have b: "read_bytes (mem span_guest (Some proc1)) (0x5000 + members nt_offsets LDR_DATA_TABLE_ENTRY_DllBase) 8
     = Some [0,0,0x40,0,0,0,0,0]"
    by (simp add: span_guest_def guest_def nt_offsets_def member_offset_e_defs read_bytes_numeral)
  have z: "read_bytes (mem span_guest (Some proc1)) (0x5000 + members nt_offsets LDR_DATA_TABLE_ENTRY_SizeOfImage) 8
     = Some [0,0x90,0,0, 0x34,0x12,0,0]"
    by (simp add: span_guest_def guest_def nt_offsets_def member_offset_e_defs read_bytes_numeral)
  have f: "read_le32 [0,0x90,0,0] = 0x9000" by (simp add: read_le32_def)
  have "fst (get_mod_span span_guest nt_offsets proc1 0x5000 st0) =
         Some \<lparr>span_addr = 0x400000, span_size = 0x123400009000\<rparr>"
    using get_mod_span_pointer_width [OF b z, of st0] by (simp add: read_le64_def)
  with b z f show ?thesis by blast
qed

end
